theory Spec2Isabelle
  imports Complex_Main
begin

section \<open>Data model\<close>

text \<open>
  The simulation keeps Python objects that are shared by reference: the grid
  (\<open>World.matrix\<close>), the list of live entities (\<open>World.entities\<close>) and the group
  lists of the animals all point to the same entity objects.  The embedding
  therefore uses an explicit store: an entity reference is a number, the store
  \<open>objs\<close> maps a reference to the attributes of the object, and \<open>grps\<close> maps the
  reference of a group list to its contents.
\<close>

type_synonym eid = nat
type_synonym gid = nat
type_synonym pos = "int \<times> int"

text \<open>The four strings of \<open>Time.cycle\<close>.\<close>

datatype phase = Morning | Day | Evening | Night

text \<open>
  The classes that are instantiated.  \<open>Plant\<close> is the base class of the three
  plant species; the spread method that the metaclass installs on it closes
  over \<open>cls = Plant\<close>.
\<close>

datatype species = Malheureux | Pauvre | Lumiere | Obscurite | Demi | Plant

datatype error = TypeError | IndexError | ValueError

text \<open>
  The attributes of an entity object.  Animals carry \<open>speed\<close> ... \<open>group_index\<close>,
  plants carry \<open>growth_time\<close> ... \<open>failed_growth_ticks\<close>; an attribute that a
  class does not define is never read for an object of that class.
  \<open>has_is_predatory\<close> and \<open>has_is_aggressive\<close> stand for
  \<open>hasattr(self, "_is_predatory")\<close> and \<open>hasattr(self, "_is_aggressive")\<close>;
  \<open>merge_rebound\<close>, \<open>eat_rebound\<close> and \<open>spread_rebound\<close> say that the instance
  attribute \<open>try_merge_groups\<close>, \<open>eat\<close> or \<open>try_spread\<close> has been assigned by
  \<open>make_predatory_merge\<close>, \<open>make_aggressive_eat\<close> or \<open>make_aggressive_spread\<close>.
\<close>

record entity =
  cls :: species
  position :: pos
  speed :: int
  food :: int
  is_active :: bool
  is_hungry :: bool
  group :: gid
  group_index :: nat
  growth_time :: "phase list"
  competitors :: "species list"
  failed_growth_ticks :: int
  has_is_predatory :: bool
  has_is_aggressive :: bool
  merge_rebound :: bool
  eat_rebound :: bool
  spread_rebound :: bool

text \<open>
  The state of a run: the fields of \<open>World\<close> (with the two fields of its \<open>Time\<close>
  object), the store, the class attribute \<open>groups\<close> of each animal class, and the
  shared random source.  \<open>rnd\<close> is the sequence of raw draws of the generator
  and \<open>rnd_pos\<close> the number of draws consumed so far.
\<close>

record world =
  width :: int
  height :: int
  max_ticks :: int
  matrix :: "eid option list list"
  entities :: "eid list"
  current_time :: phase
  tick_counter :: nat
  objs :: "eid \<Rightarrow> entity"
  grps :: "gid \<Rightarrow> eid list"
  class_groups :: "species \<Rightarrow> gid list"
  next_eid :: eid
  next_gid :: gid
  rnd :: "nat \<Rightarrow> nat"
  rnd_pos :: nat

section \<open>Python list indexing\<close>

text \<open>
  \<open>xs[i]\<close> accepts \<open>-len(xs) \<le> i < len(xs)\<close>, a negative index counting from the
  end, and raises \<open>IndexError\<close> otherwise.
\<close>

definition py_index :: "nat \<Rightarrow> int \<Rightarrow> nat option" where
  "py_index n i =
     (if 0 \<le> i \<and> i < int n then Some (nat i)
      else if i < 0 \<and> - int n \<le> i then Some (nat (int n + i))
      else None)"

definition mat_get :: "'a list list \<Rightarrow> int \<Rightarrow> int \<Rightarrow> error + 'a" where
  "mat_get m x y =
     (case py_index (length m) x of
        None \<Rightarrow> Inl IndexError
      | Some i \<Rightarrow>
          (case py_index (length (m ! i)) y of
             None \<Rightarrow> Inl IndexError
           | Some j \<Rightarrow> Inr (m ! i ! j)))"

definition mat_set :: "'a list list \<Rightarrow> int \<Rightarrow> int \<Rightarrow> 'a \<Rightarrow> error + 'a list list" where
  "mat_set m x y v =
     (case py_index (length m) x of
        None \<Rightarrow> Inl IndexError
      | Some i \<Rightarrow>
          (case py_index (length (m ! i)) y of
             None \<Rightarrow> Inl IndexError
           | Some j \<Rightarrow> Inr (m[i := (m ! i)[j := v]])))"

section \<open>The random source\<close>

text \<open>
  \<open>random.random()\<close> returns a 53-bit integer divided by \<open>2^53\<close>;
  \<open>random.randint(a, b)\<close> (called with \<open>a \<le> b\<close>) and \<open>random.choice(xs)\<close> (called
  with a non-empty list) reduce a raw draw to the range asked for.  Each call
  consumes one raw draw.  The decimal constants of the source are read as exact
  rationals.
\<close>

definition random_random :: "world \<Rightarrow> rat \<times> world" where
  "random_random w =
     (of_nat (rnd w (rnd_pos w) mod 2 ^ 53) / 2 ^ 53, w\<lparr>rnd_pos := rnd_pos w + 1\<rparr>)"

definition randint :: "int \<Rightarrow> int \<Rightarrow> world \<Rightarrow> int \<times> world" where
  "randint a b w =
     (a + int (rnd w (rnd_pos w) mod nat (b - a + 1)), w\<lparr>rnd_pos := rnd_pos w + 1\<rparr>)"

definition choice :: "'a list \<Rightarrow> world \<Rightarrow> 'a \<times> world" where
  "choice xs w = (xs ! (rnd w (rnd_pos w) mod length xs), w\<lparr>rnd_pos := rnd_pos w + 1\<rparr>)"

section \<open>Time\<close>

definition cycle :: "phase list" where
  "cycle = [Morning, Day, Evening, Night]"

definition change_time :: "world \<Rightarrow> world" where
  "change_time w =
     w\<lparr>tick_counter := tick_counter w + 1,
       current_time := cycle ! ((tick_counter w + 1) mod length cycle)\<rparr>"

definition get_time :: "world \<Rightarrow> phase" where
  "get_time w = current_time w"

section \<open>World: the grid operations\<close>

definition is_valid_position :: "world \<Rightarrow> int \<Rightarrow> int \<Rightarrow> bool" where
  "is_valid_position w x y = (0 \<le> x \<and> x < height w \<and> 0 \<le> y \<and> y < width w)"

text \<open>
  \<open>add_entity\<close> writes the cell at the position of the entity and appends the
  entity to the live list.  It has no check and no return value.
\<close>

definition add_entity :: "world \<Rightarrow> eid \<Rightarrow> error + world" where
  "add_entity w new_entity =
     (case mat_set (matrix w) (fst (position (objs w new_entity)))
             (snd (position (objs w new_entity))) (Some new_entity) of
        Inl e \<Rightarrow> Inl e
      | Inr m \<Rightarrow> Inr (w\<lparr>matrix := m, entities := entities w @ [new_entity]\<rparr>))"

definition delete_unit :: "world \<Rightarrow> eid \<Rightarrow> error + world" where
  "delete_unit w e =
     (if e \<in> set (entities w) then
        (case mat_set (matrix w) (fst (position (objs w e))) (snd (position (objs w e))) None of
           Inl err \<Rightarrow> Inl err
         | Inr m \<Rightarrow> Inr (w\<lparr>matrix := m, entities := remove1 e (entities w)\<rparr>))
      else Inr w)"

definition move_entity :: "world \<Rightarrow> eid \<Rightarrow> pos \<Rightarrow> error + bool \<times> world" where
  "move_entity w e new_pos =
     (let old_x = fst (position (objs w e)); old_y = snd (position (objs w e));
          new_x = fst new_pos; new_y = snd new_pos
      in if is_valid_position w new_x new_y then
           (case mat_get (matrix w) new_x new_y of
              Inl err \<Rightarrow> Inl err
            | Inr (Some occupant) \<Rightarrow> Inr (False, w)
            | Inr None \<Rightarrow>
                (case mat_set (matrix w) old_x old_y None of
                   Inl err \<Rightarrow> Inl err
                 | Inr m1 \<Rightarrow>
                     (case mat_set m1 new_x new_y (Some e) of
                        Inl err \<Rightarrow> Inl err
                      | Inr m2 \<Rightarrow>
                          Inr (True,
                               w\<lparr>matrix := m2,
                                 objs := (objs w)(e := (objs w e)\<lparr>position := (new_x, new_y)\<rparr>)\<rparr>))))
         else Inr (False, w))"

text \<open>\<open>relocate_unit\<close> only adds a log line to \<open>move_entity\<close>.\<close>

definition relocate_unit :: "world \<Rightarrow> eid \<Rightarrow> pos \<Rightarrow> error + bool \<times> world" where
  "relocate_unit w obj new_pos = move_entity w obj new_pos"

text \<open>
  The matrix that \<open>World.__init__\<close> builds has \<open>height\<close> rows of \<open>width\<close> cells, and
  no operation changes its shape.
\<close>

definition well_shaped :: "world \<Rightarrow> bool" where
  "well_shaped w =
     (0 \<le> height w \<and> 0 \<le> width w \<and> length (matrix w) = nat (height w) \<and>
      list_all (\<lambda>row. length row = nat (width w)) (matrix w))"

section \<open>World: neighbourhood queries\<close>

text \<open>
  \<open>range(-radius, radius + 1)\<close> twice, the outer loop over \<open>dx\<close>.
\<close>

definition offsets :: "int \<Rightarrow> (int \<times> int) list" where
  "offsets radius = List.product [- radius..radius] [- radius..radius]"

fun nearby_loop :: "world \<Rightarrow> pos \<Rightarrow> (int \<times> int) list \<Rightarrow> error + eid list" where
  "nearby_loop w p [] = Inr []"
| "nearby_loop w p (d # ds) =
     (if 0 \<le> fst p + fst d \<and> fst p + fst d < height w \<and>
         0 \<le> snd p + snd d \<and> snd p + snd d < width w then
        (case mat_get (matrix w) (fst p + fst d) (snd p + snd d) of
           Inl e \<Rightarrow> Inl e
         | Inr obj \<Rightarrow>
             (case nearby_loop w p ds of
                Inl e \<Rightarrow> Inl e
              | Inr nearby \<Rightarrow>
                  (case obj of
                     Some ob \<Rightarrow> if fst d \<noteq> 0 \<or> snd d \<noteq> 0 then Inr (ob # nearby) else Inr nearby
                   | None \<Rightarrow> Inr nearby)))
      else nearby_loop w p ds)"

definition get_nearby_objects :: "world \<Rightarrow> pos \<Rightarrow> int \<Rightarrow> error + eid list" where
  "get_nearby_objects w p radius = nearby_loop w p (offsets radius)"

fun free_loop :: "world \<Rightarrow> pos \<Rightarrow> (int \<times> int) list \<Rightarrow> error + pos list" where
  "free_loop w p [] = Inr []"
| "free_loop w p (d # ds) =
     (if fst d = 0 \<and> snd d = 0 then free_loop w p ds
      else if is_valid_position w (fst p + fst d) (snd p + snd d) then
        (case mat_get (matrix w) (fst p + fst d) (snd p + snd d) of
           Inl e \<Rightarrow> Inl e
         | Inr obj \<Rightarrow>
             (case free_loop w p ds of
                Inl e \<Rightarrow> Inl e
              | Inr cells \<Rightarrow>
                  (case obj of
                     None \<Rightarrow> Inr ((fst p + fst d, snd p + snd d) # cells)
                   | Some ob \<Rightarrow> Inr cells)))
      else free_loop w p ds)"

definition get_free_adjacent_cells :: "world \<Rightarrow> pos \<Rightarrow> error + pos list" where
  "get_free_adjacent_cells w p = free_loop w p (List.product [-1, 0, 1] [-1, 0, 1])"

text \<open>
  \<open>remove_group\<close> takes the list object of a group and removes from the world
  every member that is still live.
\<close>

fun remove_group :: "world \<Rightarrow> eid list \<Rightarrow> error + world" where
  "remove_group w [] = Inr w"
| "remove_group w (animal # rest) =
     (if animal \<in> set (entities w) then
        (case mat_set (matrix w) (fst (position (objs w animal)))
                (snd (position (objs w animal))) None of
           Inl e \<Rightarrow> Inl e
         | Inr m \<Rightarrow>
             remove_group (w\<lparr>entities := remove1 animal (entities w), matrix := m\<rparr>) rest)
      else remove_group w rest)"

section \<open>Creating entities\<close>

definition is_animal :: "species \<Rightarrow> bool" where
  "is_animal c = (c = Malheureux \<or> c = Pauvre)"

text \<open>
  \<open>Animal.__init__\<close> followed by the \<open>__init__\<close> of the subclass: a fresh singleton
  group list, appended to the class attribute \<open>groups\<close>; \<open>Malheureux\<close> then sets
  its speed to 100 and \<open>Pauvre\<close> to 50.
\<close>

definition new_animal :: "species \<Rightarrow> pos \<Rightarrow> world \<Rightarrow> eid \<times> world" where
  "new_animal c p w =
     (let self = next_eid w; g = next_gid w;
          ob = \<lparr>cls = c, position = p,
                speed = (if c = Malheureux then 100 else if c = Pauvre then 50 else 10),
                food = 100, is_active = True, is_hungry = False,
                group = g, group_index = length (class_groups w c),
                growth_time = [], competitors = [], failed_growth_ticks = 0,
                has_is_predatory = False, has_is_aggressive = False,
                merge_rebound = False, eat_rebound = False, spread_rebound = False\<rparr>
      in (self,
          w\<lparr>objs := (objs w)(self := ob),
            grps := (grps w)(g := [self]),
            class_groups := (class_groups w)(c := class_groups w c @ [g]),
            next_eid := self + 1, next_gid := g + 1\<rparr>))"

text \<open>
  \<open>Plant.__init__\<close> followed by the \<open>__init__\<close> of the subclass, which fills
  \<open>growth_time\<close> and \<open>competitors\<close> (every class is registered before the first
  instance is made).  The base class \<open>Plant\<close> leaves both empty.
\<close>

definition plant_growth_time :: "species \<Rightarrow> phase list" where
  "plant_growth_time c =
     (if c = Lumiere then [Day] else if c = Demi then [Morning, Evening]
      else if c = Obscurite then [Night] else [])"

definition plant_competitors :: "species \<Rightarrow> species list" where
  "plant_competitors c =
     (if c = Lumiere then [Obscurite, Demi] else if c = Demi then [Obscurite, Lumiere]
      else if c = Obscurite then [Lumiere, Demi] else [])"

definition new_plant :: "species \<Rightarrow> pos \<Rightarrow> world \<Rightarrow> eid \<times> world" where
  "new_plant c p w =
     (let self = next_eid w;
          ob = \<lparr>cls = c, position = p, speed = 0, food = 0, is_active = False,
                is_hungry = False, group = 0, group_index = 0,
                growth_time = plant_growth_time c, competitors = plant_competitors c,
                failed_growth_ticks = 0,
                has_is_predatory = False, has_is_aggressive = False,
                merge_rebound = False, eat_rebound = False, spread_rebound = False\<rparr>
      in (self, w\<lparr>objs := (objs w)(self := ob), next_eid := self + 1\<rparr>))"

definition new_entity :: "species \<Rightarrow> pos \<Rightarrow> world \<Rightarrow> eid \<times> world" where
  "new_entity c p w = (if is_animal c then new_animal c p w else new_plant c p w)"

section \<open>Animals\<close>

definition upd_obj :: "world \<Rightarrow> eid \<Rightarrow> (entity \<Rightarrow> entity) \<Rightarrow> world" where
  "upd_obj w e f = w\<lparr>objs := (objs w)(e := f (objs w e))\<rparr>"

definition decrease_food :: "world \<Rightarrow> eid \<Rightarrow> world" where
  "decrease_food w self = upd_obj w self (\<lambda>ob. ob\<lparr>food := max 0 (food ob - 1)\<rparr>)"

definition change_hungry_status :: "world \<Rightarrow> eid \<Rightarrow> world" where
  "change_hungry_status w self =
     (let new_status = food (objs w self) < 30
      in if new_status \<noteq> is_hungry (objs w self)
         then upd_obj w self (\<lambda>ob. ob\<lparr>is_hungry := new_status\<rparr>) else w)"

definition change_speed_status :: "world \<Rightarrow> eid \<Rightarrow> world" where
  "change_speed_status w self =
     upd_obj w self (\<lambda>ob. ob\<lparr>speed := (if is_hungry ob then 50 else 100)\<rparr>)"

text \<open>
  The class attribute \<open>active_times\<close>; the method that the metaclass installs
  falls back to morning, day and evening when it is empty.
\<close>

definition active_times :: "species \<Rightarrow> phase list" where
  "active_times c =
     (if c = Malheureux then [Morning, Evening]
      else if c = Pauvre then [Morning, Day, Evening] else [])"

definition change_active_status :: "world \<Rightarrow> eid \<Rightarrow> phase \<Rightarrow> world" where
  "change_active_status w self day_time =
     (let times = active_times (cls (objs w self));
          times = (if times = [] then [Morning, Day, Evening] else times);
          new_status = (day_time \<in> set times)
      in if new_status \<noteq> is_active (objs w self)
         then upd_obj w self (\<lambda>ob. ob\<lparr>is_active := new_status\<rparr>) else w)"

text \<open>
  \<open>check_self_modification\<close> of \<open>Malheureux\<close>, of \<open>Pauvre\<close> and of \<open>Plant\<close>.  Each
  sets its flag and rebinds one method of the instance; none ever removes the
  flag or the rebound method.
\<close>

definition check_self_modification_malheureux :: "world \<Rightarrow> eid \<Rightarrow> world" where
  "check_self_modification_malheureux w self =
     (if int (length (grps w (group (objs w self)))) > 5 \<and> \<not> has_is_predatory (objs w self)
      then upd_obj w self (\<lambda>ob. ob\<lparr>has_is_predatory := True, merge_rebound := True\<rparr>)
      else w)"

definition check_self_modification_pauvre :: "world \<Rightarrow> eid \<Rightarrow> world" where
  "check_self_modification_pauvre w self =
     (if is_hungry (objs w self) \<and> food (objs w self) < 10 \<and> \<not> has_is_aggressive (objs w self)
      then upd_obj w self (\<lambda>ob. ob\<lparr>has_is_aggressive := True, eat_rebound := True\<rparr>)
      else w)"

definition check_self_modification_plant :: "world \<Rightarrow> eid \<Rightarrow> phase \<Rightarrow> world" where
  "check_self_modification_plant w self day_time =
     (if failed_growth_ticks (objs w self) \<ge> 3 \<and> \<not> has_is_aggressive (objs w self)
      then upd_obj w self (\<lambda>ob. ob\<lparr>has_is_aggressive := True, spread_rebound := True\<rparr>)
      else w)"

definition check_self_modification :: "world \<Rightarrow> eid \<Rightarrow> world" where
  "check_self_modification w self =
     (if cls (objs w self) = Malheureux then check_self_modification_malheureux w self
      else if cls (objs w self) = Pauvre then check_self_modification_pauvre w self
      else w)"

subsection \<open>Merging groups\<close>

text \<open>
  The body of the \<open>if\<close> in \<open>GroupBehaviorMixin.try_merge_groups\<close>:
  \<open>self.group.extend(entity.group)\<close>, then every member of the list
  \<open>entity.group\<close> gets \<open>member.group = self.group\<close>, then
  \<open>world.remove_group(entity.group)\<close>, where \<open>entity.group\<close> is read again after
  the members have been re-pointed.
\<close>

definition repoint :: "gid \<Rightarrow> eid list \<Rightarrow> (eid \<Rightarrow> entity) \<Rightarrow> (eid \<Rightarrow> entity)" where
  "repoint g members obs = fold (\<lambda>member o'. o'(member := (o' member)\<lparr>group := g\<rparr>)) members obs"

definition absorb :: "world \<Rightarrow> eid \<Rightarrow> eid \<Rightarrow> error + world" where
  "absorb w self entity =
     (let gs = group (objs w self); ge = group (objs w entity);
          w1 = w\<lparr>grps := (grps w)(gs := grps w gs @ grps w ge)\<rparr>;
          w2 = w1\<lparr>objs := repoint gs (grps w1 ge) (objs w1)\<rparr>
      in remove_group w2 (grps w2 (group (objs w2 entity))))"

fun merge_loop :: "world \<Rightarrow> eid \<Rightarrow> eid list \<Rightarrow> error + world" where
  "merge_loop w self [] = Inr w"
| "merge_loop w self (entity # rest) =
     (if cls (objs w entity) = cls (objs w self) \<and> entity \<noteq> self then
        (if fst (random_random w) < 25 / 100 then absorb (snd (random_random w)) self entity
         else merge_loop (snd (random_random w)) self rest)
      else merge_loop w self rest)"

definition try_merge_groups :: "world \<Rightarrow> eid \<Rightarrow> error + world" where
  "try_merge_groups w self =
     (case get_nearby_objects w (position (objs w self)) 2 of
        Inl e \<Rightarrow> Inl e
      | Inr nearby_entities \<Rightarrow> merge_loop w self nearby_entities)"

text \<open>
  The closure \<open>predatory_merge(world)\<close> of \<open>make_predatory_merge\<close>, as its body
  reads.
\<close>

fun predatory_loop :: "world \<Rightarrow> eid \<Rightarrow> eid list \<Rightarrow> error + world" where
  "predatory_loop w self [] = Inr w"
| "predatory_loop w self (entity # rest) =
     (if cls (objs w entity) = cls (objs w self) \<and> entity \<noteq> self then
        (if int (length (grps w (group (objs w entity)))) < 3 then absorb w self entity
         else predatory_loop w self rest)
      else predatory_loop w self rest)"

definition predatory_merge :: "world \<Rightarrow> eid \<Rightarrow> error + world" where
  "predatory_merge w self =
     (case get_nearby_objects w (position (objs w self)) 2 of
        Inl e \<Rightarrow> Inl e
      | Inr nearby_entities \<Rightarrow> predatory_loop w self nearby_entities)"

text \<open>
  The call \<open>self.try_merge_groups(world)\<close> in \<open>update_state\<close>.  After
  \<open>make_predatory_merge\<close> the instance attribute is \<open>predatory_merge.__get__(self)\<close>,
  a bound method of a function whose only parameter is \<open>world\<close>: the call passes
  \<open>self\<close> and \<open>world\<close>, and Python raises \<open>TypeError\<close> before the body runs.
\<close>

definition call_try_merge_groups :: "world \<Rightarrow> eid \<Rightarrow> error + world" where
  "call_try_merge_groups w self =
     (if merge_rebound (objs w self) then Inl TypeError else try_merge_groups w self)"

subsection \<open>Moving\<close>

text \<open>
  The rejection loop of the installed \<open>move\<close>: two draws from \<open>{-1, 0, 1}\<close>,
  repeated while both are zero.  Nothing bounds the number of rounds, so the
  result is optional: \<open>None\<close> stands for a loop that never ends.
\<close>

partial_function (option) draw_direction :: "world \<Rightarrow> (int \<times> int \<times> world) option" where
  "draw_direction w =
     (let dx = fst (randint (-1) 1 w); w1 = snd (randint (-1) 1 w);
          dy = fst (randint (-1) 1 w1); w2 = snd (randint (-1) 1 w1)
      in if dx \<noteq> 0 \<or> dy \<noteq> 0 then Some (dx, dy, w2) else draw_direction w2)"

declare draw_direction.simps [code]

definition move_to :: "world \<Rightarrow> eid \<Rightarrow> int \<Rightarrow> int \<Rightarrow> error + bool \<times> world" where
  "move_to w self dx dy =
     (let new_x = fst (position (objs w self)) + dx;
          new_y = snd (position (objs w self)) + dy
      in if is_valid_position w new_x new_y then
           (case relocate_unit w self (new_x, new_y) of
              Inl e \<Rightarrow> Inl e
            | Inr (moved, w1) \<Rightarrow>
                if moved then Inr (True, decrease_food w1 self) else Inr (False, w1))
         else Inr (False, w))"

definition move :: "world \<Rightarrow> eid \<Rightarrow> (error + bool \<times> world) option" where
  "move w self =
     (if \<not> is_active (objs w self) then Some (Inr (False, w))
      else if fst (randint 1 100 w) > speed (objs w self)
      then Some (Inr (False, snd (randint 1 100 w)))
      else (case draw_direction (snd (randint 1 100 w)) of
              None \<Rightarrow> None
            | Some (dx, dy, w1) \<Rightarrow> Some (move_to w1 self dx dy)))"

subsection \<open>Eating\<close>

text \<open>
  One entry of the class attribute \<open>eat_behavior\<close>.  \<open>target_classes\<close> is what the
  first \<open>__init__\<close> of the class writes into every entry.  The keys of the
  dictionary are two phase names and \<open>"default"\<close>.
\<close>

record eat_rule =
  radius :: int
  target_classes :: "species list"
  probability :: rat
  hungry_multiplier :: rat
  food_values :: "(species \<times> int) list"

datatype eat_key = At phase | Default

definition malheureux_food_values :: "(species \<times> int) list" where
  "malheureux_food_values = [(Demi, 30), (Obscurite, 40), (Pauvre, 60)]"

definition eat_behavior :: "species \<Rightarrow> (eat_key \<times> eat_rule) list" where
  "eat_behavior c =
     (if c = Malheureux then
        [(At Morning, \<lparr>radius = 2, target_classes = [Demi, Obscurite, Pauvre],
                        probability = 25 / 100, hungry_multiplier = 2,
                        food_values = malheureux_food_values\<rparr>),
         (At Evening, \<lparr>radius = 2, target_classes = [Demi, Obscurite, Pauvre],
                        probability = 25 / 100, hungry_multiplier = 15 / 10,
                        food_values = malheureux_food_values\<rparr>),
         (Default, \<lparr>radius = 2, target_classes = [Demi, Obscurite, Pauvre],
                     probability = 1 / 10, hungry_multiplier = 1,
                     food_values = malheureux_food_values\<rparr>)]
      else if c = Pauvre then
        [(At Morning, \<lparr>radius = 2, target_classes = [Lumiere],
                        probability = 33 / 100, hungry_multiplier = 2,
                        food_values = [(Lumiere, 30)]\<rparr>),
         (At Evening, \<lparr>radius = 2, target_classes = [Lumiere],
                        probability = 11 / 100, hungry_multiplier = 1,
                        food_values = [(Lumiere, 30)]\<rparr>),
         (Default, \<lparr>radius = 2, target_classes = [Lumiere],
                     probability = 16 / 100, hungry_multiplier = 1,
                     food_values = [(Lumiere, 30)]\<rparr>)]
      else [])"

text \<open>
  \<open>{}\<close> read through \<open>.get\<close> with the defaults that the installed \<open>eat\<close> gives.
\<close>

definition empty_rule :: eat_rule where
  "empty_rule = \<lparr>radius = 2, target_classes = [], probability = 25 / 100,
                  hungry_multiplier = 2, food_values = []\<rparr>"

definition lookup_behavior :: "species \<Rightarrow> phase \<Rightarrow> eat_rule" where
  "lookup_behavior c day_time =
     (case map_of (eat_behavior c) (At day_time) of
        Some behavior \<Rightarrow> behavior
      | None \<Rightarrow>
          (case map_of (eat_behavior c) Default of
             Some behavior \<Rightarrow> behavior
           | None \<Rightarrow> empty_rule))"

definition food_value :: "eat_rule \<Rightarrow> species \<Rightarrow> int" where
  "food_value behavior c = (case map_of (food_values behavior) c of Some v \<Rightarrow> v | None \<Rightarrow> 30)"

definition eat_chance :: "eat_rule \<Rightarrow> entity \<Rightarrow> rat" where
  "eat_chance behavior ob =
     (if is_hungry ob then probability behavior * hungry_multiplier behavior
      else probability behavior)"

text \<open>
  The loop of the installed \<open>eat\<close> over the neighbours; the result carries what the
  method returns (\<open>True\<close> after eating, \<open>False\<close> otherwise).
\<close>

fun eat_loop :: "world \<Rightarrow> eid \<Rightarrow> eat_rule \<Rightarrow> eid list \<Rightarrow> error + bool \<times> world" where
  "eat_loop w self behavior [] = Inr (False, w)"
| "eat_loop w self behavior (target # rest) =
     (if cls (objs w target) \<in> set (target_classes behavior) then
        (if fst (random_random w) < eat_chance behavior (objs w self) then
           (case delete_unit (snd (random_random w)) target of
              Inl e \<Rightarrow> Inl e
            | Inr w1 \<Rightarrow>
                Inr (True,
                     upd_obj w1 self
                       (\<lambda>ob. ob\<lparr>food := food ob + food_value behavior (cls (objs w target))\<rparr>)))
         else eat_loop (snd (random_random w)) self behavior rest)
      else eat_loop w self behavior rest)"

definition eat :: "world \<Rightarrow> eid \<Rightarrow> phase \<Rightarrow> error + bool option \<times> world" where
  "eat w self day_time =
     (if \<not> is_active (objs w self) then Inr (None, w)
      else
        (let behavior = lookup_behavior (cls (objs w self)) day_time
         in case get_nearby_objects w (position (objs w self)) (radius behavior) of
              Inl e \<Rightarrow> Inl e
            | Inr targets \<Rightarrow>
                (case eat_loop w self behavior targets of
                   Inl e \<Rightarrow> Inl e
                 | Inr (b, w1) \<Rightarrow> Inr (Some b, w1))))"

text \<open>
  The closure \<open>aggressive_eat(world, day_time)\<close> of \<open>make_aggressive_eat\<close>, as its
  body reads.
\<close>

fun aggressive_eat_loop :: "world \<Rightarrow> eid \<Rightarrow> eid list \<Rightarrow> error + world" where
  "aggressive_eat_loop w self [] = Inr w"
| "aggressive_eat_loop w self (target # rest) =
     (if (cls (objs w target) = Lumiere \<or> cls (objs w target) = Pauvre) \<and> target \<noteq> self then
        (if fst (random_random w) < 2 / 10 then
           (case delete_unit (snd (random_random w)) target of
              Inl e \<Rightarrow> Inl e
            | Inr w1 \<Rightarrow> Inr (upd_obj w1 self (\<lambda>ob. ob\<lparr>food := food ob + 20\<rparr>)))
         else aggressive_eat_loop (snd (random_random w)) self rest)
      else aggressive_eat_loop w self rest)"

definition aggressive_eat :: "world \<Rightarrow> eid \<Rightarrow> phase \<Rightarrow> error + world" where
  "aggressive_eat w self day_time =
     (if \<not> is_active (objs w self) then Inr w
      else (case get_nearby_objects w (position (objs w self)) 2 of
              Inl e \<Rightarrow> Inl e
            | Inr targets \<Rightarrow> aggressive_eat_loop w self targets))"

text \<open>
  The call \<open>self.eat(world, day_time)\<close> in \<open>update_state\<close>.  After
  \<open>make_aggressive_eat\<close> the instance attribute is \<open>aggressive_eat.__get__(self)\<close>,
  a bound method of a function with the two parameters \<open>world\<close> and \<open>day_time\<close>:
  the call passes three arguments, and Python raises \<open>TypeError\<close>.
\<close>

definition call_eat :: "world \<Rightarrow> eid \<Rightarrow> phase \<Rightarrow> error + world" where
  "call_eat w self day_time =
     (if eat_rebound (objs w self) then Inl TypeError
      else (case eat w self day_time of Inl e \<Rightarrow> Inl e | Inr (b, w1) \<Rightarrow> Inr w1))"

subsection \<open>Reproducing\<close>

definition reproduction_probability :: "world \<Rightarrow> eid \<Rightarrow> rat" where
  "reproduction_probability w self =
     (if cls (objs w self) = Malheureux then
        (if int (length (grps w (group (objs w self)))) > 3 then 2 / 10 else 5 / 100)
      else (if int (length (grps w (group (objs w self)))) > 2 then 3 / 10 else 1 / 10))"

text \<open>
  \<open>Animal\<close> defines \<open>reproduce\<close> with the body \<open>pass\<close>, so the metaclass finds the
  attribute present and does not install its own method: \<open>self.reproduce(world)\<close>
  does nothing.
\<close>

definition reproduce :: "world \<Rightarrow> eid \<Rightarrow> world" where
  "reproduce w self = w"

definition try_reproduce :: "world \<Rightarrow> eid \<Rightarrow> world" where
  "try_reproduce w self =
     (if fst (random_random w) < reproduction_probability w self
      then reproduce (snd (random_random w)) self else snd (random_random w))"

subsection \<open>The update of an animal\<close>

definition animal_update_state :: "world \<Rightarrow> eid \<Rightarrow> phase \<Rightarrow> (error + world) option" where
  "animal_update_state w self day_time =
     (let w1 = change_active_status w self day_time;
          w2 = change_hungry_status w1 self;
          w3 = change_speed_status w2 self;
          w4 = check_self_modification w3 self
      in if is_active (objs w4 self) then
           (case call_try_merge_groups w4 self of
              Inl e \<Rightarrow> Some (Inl e)
            | Inr w5 \<Rightarrow>
                (case move w5 self of
                   None \<Rightarrow> None
                 | Some (Inl e) \<Rightarrow> Some (Inl e)
                 | Some (Inr (moved, w6)) \<Rightarrow>
                     (case call_eat w6 self day_time of
                        Inl e \<Rightarrow> Some (Inl e)
                      | Inr w7 \<Rightarrow> Some (Inr (try_reproduce w7 self)))))
         else Some (Inr w4))"

section \<open>Plants\<close>

text \<open>
  The values that reach \<open>Plant._can_replace(other)\<close>: it is written for an
  occupant of a cell (an entity or \<open>None\<close>), and both spread methods call it with
  the position tuple that \<open>random.choice\<close> returned.  A non-empty tuple is true
  and is an instance of no class in \<open>competitors\<close>.
\<close>

datatype pyval = NoneVal | PosTuple pos | EntityRef eid

definition can_replace :: "world \<Rightarrow> eid \<Rightarrow> pyval \<Rightarrow> bool" where
  "can_replace w self other =
     (case other of
        NoneVal \<Rightarrow> False
      | PosTuple p \<Rightarrow> False
      | EntityRef t \<Rightarrow> cls (objs w t) \<in> set (competitors (objs w self)))"

text \<open>
  \<open>Plant\<close> defines \<open>can_grow\<close> with the body \<open>pass\<close>, so the metaclass finds the
  attribute present and does not install its own method: \<open>self.can_grow(day_time)\<close>
  returns \<open>None\<close>, which is false in the \<open>if\<close> of \<open>grow\<close>.
\<close>

definition can_grow :: "world \<Rightarrow> eid \<Rightarrow> phase \<Rightarrow> bool" where
  "can_grow w self day_time = False"

text \<open>
  The spread method that \<open>EvalPlantMeta\<close> installs.  It is installed once, on the
  base class, so its \<open>cls\<close> is \<open>Plant\<close>: the two chances are the defaults of the
  \<open>getattr\<close> calls (0.25 and 0.5) and the new object is a \<open>Plant\<close>.
\<close>

definition spread :: "world \<Rightarrow> eid \<Rightarrow> error + bool \<times> world" where
  "spread w self =
     (case get_free_adjacent_cells w (position (objs w self)) of
        Inl e \<Rightarrow> Inl e
      | Inr target \<Rightarrow>
          if target = [] then Inr (False, w)
          else
            (let new_pos = fst (choice target w); w1 = snd (choice target w);
                 spread_chance = (if can_replace w1 self (PosTuple new_pos) then 25 / 100 else 5 / 10)
             in if fst (random_random w1) < spread_chance then
                  (case add_entity (snd (new_plant Plant new_pos (snd (random_random w1))))
                          (fst (new_plant Plant new_pos (snd (random_random w1)))) of
                     Inl e \<Rightarrow> Inl e
                   | Inr w2 \<Rightarrow> Inr (True, w2))
                else Inr (False, snd (random_random w1))))"

text \<open>
  The closure \<open>aggressive_spread(self, world)\<close> of \<open>make_aggressive_spread\<close>.  Its
  second branch is guarded by \<open>target is None\<close>, where \<open>target\<close> is the non-empty
  list of free cells.
\<close>

definition aggressive_spread :: "world \<Rightarrow> eid \<Rightarrow> error + bool \<times> world" where
  "aggressive_spread w self =
     (case get_free_adjacent_cells w (position (objs w self)) of
        Inl e \<Rightarrow> Inl e
      | Inr target \<Rightarrow>
          if target \<noteq> [] then
            (let new_pos = fst (choice target w); w1 = snd (choice target w);
                 target_is_None = False
             in if can_replace w1 self (PosTuple new_pos) then
                  (if fst (random_random w1) < 75 / 100 then
                     (case add_entity
                             (snd (new_plant (cls (objs w1 self)) new_pos (snd (random_random w1))))
                             (fst (new_plant (cls (objs w1 self)) new_pos (snd (random_random w1)))) of
                        Inl e \<Rightarrow> Inl e
                      | Inr w2 \<Rightarrow> Inr (True, w2))
                   else Inr (False, snd (random_random w1)))
                else if target_is_None then
                  (if fst (random_random w1) < 9 / 10 then
                     (case add_entity
                             (snd (new_plant (cls (objs w1 self)) new_pos (snd (random_random w1))))
                             (fst (new_plant (cls (objs w1 self)) new_pos (snd (random_random w1)))) of
                        Inl e \<Rightarrow> Inl e
                      | Inr w2 \<Rightarrow> Inr (True, w2))
                   else Inr (False, snd (random_random w1)))
                else Inr (False, w1))
          else Inr (False, w))"

definition try_spread :: "world \<Rightarrow> eid \<Rightarrow> error + bool \<times> world" where
  "try_spread w self =
     (if spread_rebound (objs w self) then aggressive_spread w self else spread w self)"

definition grow :: "world \<Rightarrow> eid \<Rightarrow> phase \<Rightarrow> error + world" where
  "grow w self day_time =
     (if can_grow w self day_time then
        (case try_spread (upd_obj w self (\<lambda>ob. ob\<lparr>failed_growth_ticks := 0\<rparr>)) self of
           Inl e \<Rightarrow> Inl e
         | Inr (b, w1) \<Rightarrow> Inr w1)
      else Inr (upd_obj w self (\<lambda>ob. ob\<lparr>failed_growth_ticks := failed_growth_ticks ob + 1\<rparr>)))"

definition plant_update_state :: "world \<Rightarrow> eid \<Rightarrow> phase \<Rightarrow> error + world" where
  "plant_update_state w self day_time =
     grow (check_self_modification_plant w self day_time) self day_time"

section \<open>The tick\<close>

definition update_state :: "world \<Rightarrow> eid \<Rightarrow> phase \<Rightarrow> (error + world) option" where
  "update_state w e day_time =
     (if is_animal (cls (objs w e)) then animal_update_state w e day_time
      else Some (plant_update_state w e day_time))"

text \<open>
  The \<open>for\<close> loop of \<open>process_tick\<close> over \<open>list(self.entities)\<close>, the copy taken
  before the first update.  An exception leaves the loop and the method.
\<close>

fun update_all :: "eid list \<Rightarrow> phase \<Rightarrow> world \<Rightarrow> (error + world) option" where
  "update_all [] day_time w = Some (Inr w)"
| "update_all (e # es) day_time w =
     (case update_state w e day_time of
        None \<Rightarrow> None
      | Some (Inl err) \<Rightarrow> Some (Inl err)
      | Some (Inr w1) \<Rightarrow> update_all es day_time w1)"

definition process_tick :: "world \<Rightarrow> (error + world) option" where
  "process_tick w =
     (case update_all (entities w) (get_time w) w of
        None \<Rightarrow> None
      | Some (Inl err) \<Rightarrow> Some (Inl err)
      | Some (Inr w1) \<Rightarrow> Some (Inr (change_time w1)))"

section \<open>Setting a world up\<close>

text \<open>
  \<open>World.__init__\<close>, in a process that has created no entity yet.  The argument
  \<open>r\<close> is the sequence of raw draws that the random source will deliver.
\<close>

definition blank :: entity where
  "blank = \<lparr>cls = Plant, position = (0, 0), speed = 0, food = 0, is_active = False,
             is_hungry = False, group = 0, group_index = 0, growth_time = [],
             competitors = [], failed_growth_ticks = 0, has_is_predatory = False,
             has_is_aggressive = False, merge_rebound = False, eat_rebound = False,
             spread_rebound = False\<rparr>"

definition World_init :: "int \<Rightarrow> int \<Rightarrow> int \<Rightarrow> (nat \<Rightarrow> nat) \<Rightarrow> world" where
  "World_init wd ht mt r =
     \<lparr>width = wd, height = ht, max_ticks = mt,
      matrix = replicate (nat ht) (replicate (nat wd) None),
      entities = [], current_time = cycle ! 0, tick_counter = 0,
      objs = (\<lambda>e. blank), grps = (\<lambda>g. []), class_groups = (\<lambda>c. []),
      next_eid = 0, next_gid = 0, rnd = r, rnd_pos = 0\<rparr>"

text \<open>
  One round of the outer loop of \<open>initial_spawn\<close>: draw cells until a free one
  turns up.  \<open>random.randint(0, n - 1)\<close> raises \<open>ValueError\<close> for \<open>n \<le> 0\<close>.  The inner
  loop has no bound (a full grid never ends it), hence the optional result.
\<close>

partial_function (option) spawn_one :: "species \<Rightarrow> world \<Rightarrow> (error + world) option" where
  "spawn_one c w =
     (if height w - 1 < 0 \<or> width w - 1 < 0 then Some (Inl ValueError)
      else
        (let x = fst (randint 0 (height w - 1) w); w1 = snd (randint 0 (height w - 1) w);
             y = fst (randint 0 (width w - 1) w1); w2 = snd (randint 0 (width w - 1) w1)
         in case mat_get (matrix w2) x y of
              Inl e \<Rightarrow> Some (Inl e)
            | Inr (Some occupant) \<Rightarrow> spawn_one c w2
            | Inr None \<Rightarrow>
                (case mat_set (matrix w2) x y (Some (fst (new_entity c (x, y) w2))) of
                   Inl e \<Rightarrow> Some (Inl e)
                 | Inr m \<Rightarrow>
                     Some (Inr ((snd (new_entity c (x, y) w2))
                                 \<lparr>matrix := m,
                                   entities := entities w2 @ [fst (new_entity c (x, y) w2)]\<rparr>)))))"

declare spawn_one.simps [code]

fun initial_spawn :: "species \<Rightarrow> nat \<Rightarrow> world \<Rightarrow> (error + world) option" where
  "initial_spawn c 0 w = Some (Inr w)"
| "initial_spawn c (Suc n) w =
     (case spawn_one c w of
        None \<Rightarrow> None
      | Some (Inl e) \<Rightarrow> Some (Inl e)
      | Some (Inr w1) \<Rightarrow> initial_spawn c n w1)"

text \<open>
  The states of a run: a new world, then any sequence of spawns and ticks that
  return.
\<close>

inductive reachable :: "world \<Rightarrow> bool" where
  reach_init: "reachable (World_init wd ht mt r)"
| reach_spawn: "reachable w \<Longrightarrow> initial_spawn c n w = Some (Inr w') \<Longrightarrow> reachable w'"
| reach_tick: "reachable w \<Longrightarrow> process_tick w = Some (Inr w') \<Longrightarrow> reachable w'"

section \<open>Worlds for the examples\<close>

text \<open>
  A grid of one row and two cells; a \<open>Lumiere\<close> occupies the cell (0, 0), and a
  \<open>Demi\<close> has been created for the same position and not yet placed.
\<close>

definition occupied_world :: world where
  "occupied_world =
     (World_init 2 1 0 (\<lambda>n. 0))
       \<lparr>matrix := [[Some 0, None]], entities := [0],
        objs := (\<lambda>e. blank)(0 := blank\<lparr>cls := Lumiere\<rparr>, 1 := blank\<lparr>cls := Demi\<rparr>),
        next_eid := 2\<rparr>"

text \<open>
  A row of four cells, the last one free, with one entity of each kind after its
  self-modification:
  a \<open>Pauvre\<close> with the attribute \<open>_is_aggressive\<close> and a rebound \<open>eat\<close>, a
  \<open>Malheureux\<close> whose group list has six entries, and a \<open>Lumiere\<close> with three
  failed growth ticks.
\<close>

definition mutated_world :: world where
  "mutated_world =
     (World_init 4 1 0 (\<lambda>n. 0))
       \<lparr>matrix := [[Some 0, Some 1, Some 2, None]], entities := [0, 1, 2],
        objs := (\<lambda>e. blank)
          (0 := blank\<lparr>cls := Pauvre, position := (0, 0), food := 100, is_hungry := True,
                       is_active := True, speed := 50,
                       has_is_aggressive := True, eat_rebound := True\<rparr>,
           1 := blank\<lparr>cls := Malheureux, position := (0, 1), food := 100, is_active := True,
                       speed := 100, group := 1,
                       has_is_predatory := True, merge_rebound := True\<rparr>,
           2 := blank\<lparr>cls := Lumiere, position := (0, 2), growth_time := [Day],
                       competitors := [Obscurite, Demi], failed_growth_ticks := 3,
                       has_is_aggressive := True, spread_rebound := True\<rparr>),
        grps := (\<lambda>g. [])(0 := [0], 1 := [1, 1, 1, 1, 1, 1]),
        next_eid := 3, next_gid := 2\<rparr>"

text \<open>
  Two \<open>Malheureux\<close> side by side, before the update of the first: its group list
  has six entries (itself and five animals absorbed earlier), that of its
  neighbour has two.
\<close>

definition predatory_world :: world where
  "predatory_world =
     (World_init 2 1 0 (\<lambda>n. 0))
       \<lparr>matrix := [[Some 0, Some 1]], entities := [0, 1],
        objs := (\<lambda>e. blank)
          (0 := blank\<lparr>cls := Malheureux, position := (0, 0), food := 100, is_active := True,
                       speed := 100, group := 0\<rparr>,
           1 := blank\<lparr>cls := Malheureux, position := (0, 1), food := 100, is_active := True,
                       speed := 100, group := 1\<rparr>),
        grps := (\<lambda>g. [])(0 := [0, 2, 3, 4, 5, 6], 1 := [1, 7]),
        next_eid := 8, next_gid := 8\<rparr>"

text \<open>
  Two \<open>Malheureux\<close> side by side, each in its own singleton group; every raw draw
  is 0, so every \<open>random.random()\<close> returns 0.
\<close>

definition merge_world :: world where
  "merge_world =
     (World_init 2 1 0 (\<lambda>n. 0))
       \<lparr>matrix := [[Some 0, Some 1]], entities := [0, 1],
        objs := (\<lambda>e. blank)
          (0 := blank\<lparr>cls := Malheureux, position := (0, 0), food := 100, is_active := True,
                       speed := 100, group := 0\<rparr>,
           1 := blank\<lparr>cls := Malheureux, position := (0, 1), food := 100, is_active := True,
                       speed := 100, group := 1\<rparr>),
        grps := (\<lambda>g. [])(0 := [0], 1 := [1]),
        next_eid := 2, next_gid := 2\<rparr>"

text \<open>
  The value that the \<open>i\<close>-th coming call of \<open>random.random()\<close> returns in a world.
\<close>

definition next_random :: "world \<Rightarrow> nat \<Rightarrow> rat" where
  "next_random w i = of_nat (rnd w (rnd_pos w + i) mod 2 ^ 53) / 2 ^ 53"

text \<open>
  Two \<open>Malheureux\<close> side by side that are already members of one group (their
  group attribute is the same list); every \<open>random.random()\<close> returns 0.
\<close>

definition same_group_world :: world where
  "same_group_world =
     (World_init 2 1 0 (\<lambda>n. 0))
       \<lparr>matrix := [[Some 0, Some 1]], entities := [0, 1],
        objs := (\<lambda>e. blank)
          (0 := blank\<lparr>cls := Malheureux, position := (0, 0), food := 100, is_active := True,
                       speed := 100, group := 0\<rparr>,
           1 := blank\<lparr>cls := Malheureux, position := (0, 1), food := 100, is_active := True,
                       speed := 100, group := 0\<rparr>),
        grps := (\<lambda>g. [])(0 := [0, 1]),
        next_eid := 2, next_gid := 1\<rparr>"

text \<open>
  A \<open>Pauvre\<close> alone on a row of two cells, at the first phase of the day, with
  food 5 and the hunger flag set, not yet modified; every raw draw is 0.
\<close>

definition hungry_world :: world where
  "hungry_world =
     (World_init 2 1 0 (\<lambda>n. 0))
       \<lparr>matrix := [[Some 0, None]], entities := [0],
        objs := (\<lambda>e. blank)
          (0 := blank\<lparr>cls := Pauvre, position := (0, 0), food := 5, is_active := True,
                       is_hungry := True, speed := 50, group := 0\<rparr>),
        grps := (\<lambda>g. [])(0 := [0]),
        next_eid := 1, next_gid := 1\<rparr>"


text \<open>
  A random source that delivers the raw draws of a list, then zeros.
\<close>

definition draws_of :: "nat list \<Rightarrow> nat \<Rightarrow> nat" where
  "draws_of xs n = (if n < length xs then xs ! n else 0)"

text \<open>
  A run on a row of four cells: \<open>World(width=4, height=1, max_ticks=40)\<close>, then
  \<open>initial_spawn(Malheureux, 1)\<close> and \<open>initial_spawn(Pauvre, 2)\<close>.  With the draws of
  \<open>small_draws\<close> the three animals are placed on the cells (0, 0), (0, 1) and
  (0, 2); \<open>small_world\<close> is the world after the spawns, as lemma
  \<open>small_world_spawned\<close> shows.
\<close>

definition small_draws :: "nat \<Rightarrow> nat" where
  "small_draws =
     draws_of [0, 0, 0, 1, 0, 2, 0, 0, 0, 2 ^ 52, 0, 2 ^ 52, 0, 1, 2, 2 ^ 52,
               0, 1, 2, 2 ^ 52]"

definition small_world :: world where
  "small_world =
     (World_init 4 1 40 small_draws)
       \<lparr>matrix := [[Some 0, Some 1, Some 2, None]], entities := [0, 1, 2],
        objs := (\<lambda>e. blank)
          (0 := blank\<lparr>cls := Malheureux, position := (0, 0), speed := 100, food := 100,
                       is_active := True, group := 0\<rparr>,
           1 := blank\<lparr>cls := Pauvre, position := (0, 1), speed := 50, food := 100,
                       is_active := True, group := 1\<rparr>,
           2 := blank\<lparr>cls := Pauvre, position := (0, 2), speed := 50, food := 100,
                       is_active := True, group := 2, group_index := 1\<rparr>),
        grps := (\<lambda>g. [])(0 := [0], 1 := [1], 2 := [2]),
        class_groups := (\<lambda>c. [])(Malheureux := [0], Pauvre := [1, 2]),
        next_eid := 3, next_gid := 3, rnd_pos := 6\<rparr>"

text \<open>
  The grid and the live list agree: the cell at the position of every live
  entity holds that entity, and no two live entities have the same position.
\<close>

definition grid_consistent :: "world \<Rightarrow> bool" where
  "grid_consistent w =
     (list_all (\<lambda>e. mat_get (matrix w) (fst (position (objs w e))) (snd (position (objs w e))) =
                      Inr (Some e)) (entities w) \<and>
      distinct (map (\<lambda>e. position (objs w e)) (entities w)))"

section \<open>Facts about the grid\<close>

lemma py_index_in_range: "0 \<le> i \<Longrightarrow> i < int n \<Longrightarrow> py_index n i = Some (nat i)"
  by (simp add: py_index_def)

lemma valid_row:
  "well_shaped w \<Longrightarrow> is_valid_position w x y \<Longrightarrow>
     nat x < length (matrix w) \<and> length (matrix w ! nat x) = nat (width w) \<and> nat y < nat (width w)"
  by (auto simp: well_shaped_def is_valid_position_def list_all_length)

lemma mat_get_valid:
  "well_shaped w \<Longrightarrow> is_valid_position w x y \<Longrightarrow>
     mat_get (matrix w) x y = Inr (matrix w ! nat x ! nat y)"
  by (auto simp: mat_get_def py_index_def well_shaped_def is_valid_position_def list_all_length)

lemma mat_set_valid:
  "well_shaped w \<Longrightarrow> is_valid_position w x y \<Longrightarrow>
     mat_set (matrix w) x y v = Inr ((matrix w)[nat x := (matrix w ! nat x)[nat y := v]])"
  by (auto simp: mat_set_def py_index_def well_shaped_def is_valid_position_def list_all_length)

lemma well_shaped_upd:
  "well_shaped w \<Longrightarrow> well_shaped (w\<lparr>matrix := (matrix w)[i := (matrix w ! i)[j := v]]\<rparr>)"
proof -
  have "length ((matrix w)[i := (matrix w ! i)[j := v]] ! n) = length (matrix w ! n)"
    if "n < length (matrix w)" for n
    using that by (cases "i = n") simp_all
  then show "well_shaped w \<Longrightarrow> ?thesis"
    by (simp add: well_shaped_def list_all_length)
qed

lemma is_valid_position_matrix_upd [simp]:
  "is_valid_position (w\<lparr>matrix := m\<rparr>) x y = is_valid_position w x y"
  by (simp add: is_valid_position_def)

lemma cell_after_set:
  "well_shaped w \<Longrightarrow> is_valid_position w x y \<Longrightarrow> is_valid_position w x' y' \<Longrightarrow>
     (matrix w)[nat x := (matrix w ! nat x)[nat y := v]] ! nat x' ! nat y' =
       (if x' = x \<and> y' = y then v else matrix w ! nat x' ! nat y')"
  by (auto simp: well_shaped_def is_valid_position_def list_all_length nth_list_update)

lemma py_index_wrap:
  "- int n \<le> i \<Longrightarrow> i < int n \<Longrightarrow> py_index n i = Some (nat (i mod int n))"
proof (cases "0 \<le> i")
  case True
  assume "i < int n"
  with True show ?thesis by (simp add: py_index_def)
next
  case False
  assume a: "- int n \<le> i" "i < int n"
  from False a have "(i + int n) mod int n = i + int n"
    by (intro mod_pos_pos_trivial) simp_all
  then have "i mod int n = i + int n" by simp
  with False a show ?thesis by (simp add: py_index_def add.commute)
qed

lemma py_index_outside:
  "i < - int n \<or> int n \<le> i \<Longrightarrow> py_index n i = None"
  by (auto simp: py_index_def)

lemma py_index_less: "py_index n i = Some k \<Longrightarrow> k < n"
  by (auto simp: py_index_def split: if_splits)

lemma mat_set_then_get: "mat_set m x y v = Inr m' \<Longrightarrow> mat_get m' x y = Inr v"
proof -
  assume s: "mat_set m x y v = Inr m'"
  then obtain i j where i: "py_index (length m) x = Some i"
    and j: "py_index (length (m ! i)) y = Some j"
    and m': "m' = m[i := (m ! i)[j := v]]"
    by (auto simp: mat_set_def split: option.splits)
  from py_index_less [OF i] py_index_less [OF j] i j m'
  show ?thesis by (simp add: mat_get_def)
qed


section \<open>Moving an entity on the grid\<close>

text \<open>
  Claim C9.  \<open>move_entity\<close> is atomic.  For an entity whose position is on the
  grid: if the target is out of bounds or occupied, the call returns \<open>False\<close> and
  the world is unchanged; if the target is in bounds and empty, the call returns
  \<open>True\<close>, the position of the entity is the target, the target cell holds the
  entity, the old cell is empty and the live list is unchanged.  (The target
  can be the old cell only for an entity that is not on the grid; that cell then
  holds the entity.)
\<close>

theorem move_entity_atomic:
  assumes ws: "well_shaped w"
    and old: "is_valid_position w (fst (position (objs w e))) (snd (position (objs w e)))"
  shows "(\<not> is_valid_position w (fst np) (snd np) \<or>
            (\<exists>occ. mat_get (matrix w) (fst np) (snd np) = Inr (Some occ))
          \<longrightarrow> move_entity w e np = Inr (False, w))
       \<and> (is_valid_position w (fst np) (snd np) \<and> mat_get (matrix w) (fst np) (snd np) = Inr None
          \<longrightarrow> (\<exists>w'. move_entity w e np = Inr (True, w') \<and>
                 position (objs w' e) = np \<and>
                 mat_get (matrix w') (fst np) (snd np) = Inr (Some e) \<and>
                 (np \<noteq> position (objs w e) \<longrightarrow>
                    mat_get (matrix w') (fst (position (objs w e))) (snd (position (objs w e))) = Inr None) \<and>
                 entities w' = entities w))"
proof (intro conjI impI)
  assume "\<not> is_valid_position w (fst np) (snd np) \<or>
            (\<exists>occ. mat_get (matrix w) (fst np) (snd np) = Inr (Some occ))"
  then show "move_entity w e np = Inr (False, w)"
    by (auto simp: move_entity_def Let_def)
next
  assume a: "is_valid_position w (fst np) (snd np) \<and> mat_get (matrix w) (fst np) (snd np) = Inr None"
  let ?ox = "fst (position (objs w e))" and ?oy = "snd (position (objs w e))"
  let ?m1 = "(matrix w)[nat ?ox := (matrix w ! nat ?ox)[nat ?oy := None]]"
  let ?w1 = "w\<lparr>matrix := ?m1\<rparr>"
  let ?m2 = "?m1[nat (fst np) := (?m1 ! nat (fst np))[nat (snd np) := Some e]]"
  let ?w' = "w\<lparr>matrix := ?m2, objs := (objs w)(e := (objs w e)\<lparr>position := (fst np, snd np)\<rparr>)\<rparr>"
  have s1: "mat_set (matrix w) ?ox ?oy None = Inr ?m1"
    using mat_set_valid [OF ws old] .
  have ws1: "well_shaped ?w1" using well_shaped_upd [OF ws] .
  have v1: "is_valid_position ?w1 (fst np) (snd np)" using a by simp
  have s2: "mat_set ?m1 (fst np) (snd np) (Some e) = Inr ?m2"
    using mat_set_valid [OF ws1 v1] by simp
  have mv: "move_entity w e np = Inr (True, ?w')"
    using a s1 s2 by (simp add: move_entity_def Let_def)
  have ws2: "well_shaped (?w1\<lparr>matrix := ?m2\<rparr>)"
    using well_shaped_upd [OF ws1] by simp
  have g_new: "mat_get ?m2 (fst np) (snd np) = Inr (Some e)"
    using mat_get_valid [OF ws2] v1 cell_after_set [OF ws1 v1 v1] by simp
  have old1: "is_valid_position ?w1 ?ox ?oy" using old by simp
  have g_old: "np \<noteq> position (objs w e) \<Longrightarrow> mat_get ?m2 ?ox ?oy = Inr None"
    using mat_get_valid [OF ws2, of ?ox ?oy] old cell_after_set [OF ws1 v1 old1]
      cell_after_set [OF ws old old]
    by (auto simp: prod_eq_iff)
  show "\<exists>w'. move_entity w e np = Inr (True, w') \<and>
                 position (objs w' e) = np \<and>
                 mat_get (matrix w') (fst np) (snd np) = Inr (Some e) \<and>
                 (np \<noteq> position (objs w e) \<longrightarrow>
                    mat_get (matrix w') (fst (position (objs w e))) (snd (position (objs w e))) = Inr None) \<and>
                 entities w' = entities w"
    using mv g_new g_old by (intro exI [of _ ?w']) simp
qed

theorem move_entity_atomic_witness:
  "well_shaped (World_init 2 1 0 (\<lambda>n. 0)) \<and>
   is_valid_position (World_init 2 1 0 (\<lambda>n. 0)) 0 0 \<and>
   move_entity (World_init 2 1 0 (\<lambda>n. 0)) 0 (5, 5) = Inr (False, World_init 2 1 0 (\<lambda>n. 0)) \<and>
   (\<exists>w'. move_entity (World_init 2 1 0 (\<lambda>n. 0)) 0 (0, 1) = Inr (True, w') \<and>
         position (objs w' 0) = (0, 1) \<and> mat_get (matrix w') 0 1 = Inr (Some 0) \<and>
         mat_get (matrix w') 0 0 = Inr None \<and> entities w' = [])"
proof -
  let ?w = "World_init 2 1 0 (\<lambda>n. 0)"
  have ws: "well_shaped ?w"
    by (simp add: well_shaped_def World_init_def)
  have old: "is_valid_position ?w (fst (position (objs ?w 0))) (snd (position (objs ?w 0)))"
    by (simp add: is_valid_position_def World_init_def blank_def)
  have free: "mat_get (matrix ?w) 0 1 = Inr None"
    by (simp add: mat_get_def py_index_def World_init_def numeral_2_eq_2)
  have far: "\<not> is_valid_position ?w 5 5"
    by (simp add: is_valid_position_def World_init_def)
  have tgt: "is_valid_position ?w 0 1"
    by (simp add: is_valid_position_def World_init_def)
  have p0: "position (objs ?w 0) = (0, 0)"
    by (simp add: World_init_def blank_def)
  from move_entity_atomic [OF ws old, of "(5, 5)"] far
  have a: "move_entity ?w 0 (5, 5) = Inr (False, ?w)" by simp
  from move_entity_atomic [OF ws old, of "(0, 1)"] free tgt p0
  have b: "\<exists>w'. move_entity ?w 0 (0, 1) = Inr (True, w') \<and>
         position (objs w' 0) = (0, 1) \<and> mat_get (matrix w') 0 1 = Inr (Some 0) \<and>
         mat_get (matrix w') 0 0 = Inr None \<and> entities w' = []"
    by (simp add: World_init_def)
  from ws old a b p0 show ?thesis by simp
qed

section \<open>Placing an entity on the grid\<close>

text \<open>
  Claim C3 says that placing fails, as a no-op with a failure signal, on an
  occupied or out-of-bounds cell.  \<open>add_entity\<close> does not: called for the \<open>Demi\<close>
  on the occupied cell (0, 0), it overwrites the occupant and appends the new
  entity to the live list.
\<close>

theorem add_entity_overwrites:
  "mat_get (matrix occupied_world) 0 0 = Inr (Some 0) \<and>
   map_sum id matrix (add_entity occupied_world 1) = Inr [[Some 1, None]] \<and>
   map_sum id entities (add_entity occupied_world 1) = Inr [0, 1]"
  by (simp add: occupied_world_def World_init_def blank_def add_entity_def mat_get_def mat_set_def
      py_index_def)

text \<open>
  Claim C3, amended.  \<open>add_entity\<close> checks neither the bounds nor the occupancy and
  returns no signal.  On a well-shaped grid, for an entity at the position
  \<open>(x, y)\<close>: if \<open>-height \<le> x < height\<close> and \<open>-width \<le> y < width\<close>, it writes the entity
  into row \<open>x mod height\<close>, column \<open>y mod width\<close> (the cell \<open>(x, y)\<close> itself when the
  position is in bounds, the cell counted from the end when an index is
  negative), whatever the cell held, appends the entity to the live list and
  changes nothing else; otherwise it raises \<open>IndexError\<close>.  Whenever it returns,
  reading the grid at \<open>(x, y)\<close> gives the entity.
\<close>

theorem add_entity_unchecked:
  assumes ws: "well_shaped w"
  shows "(- height w \<le> fst (position (objs w e)) \<and> fst (position (objs w e)) < height w \<and>
          - width w \<le> snd (position (objs w e)) \<and> snd (position (objs w e)) < width w \<longrightarrow>
            add_entity w e =
              Inr (w\<lparr>matrix :=
                       (matrix w)[nat (fst (position (objs w e)) mod height w) :=
                          (matrix w ! nat (fst (position (objs w e)) mod height w))
                            [nat (snd (position (objs w e)) mod width w) := Some e]],
                     entities := entities w @ [e]\<rparr>))
       \<and> (\<not> (- height w \<le> fst (position (objs w e)) \<and> fst (position (objs w e)) < height w \<and>
              - width w \<le> snd (position (objs w e)) \<and> snd (position (objs w e)) < width w) \<longrightarrow>
            add_entity w e = Inl IndexError)
       \<and> (\<forall>w'. add_entity w e = Inr w' \<longrightarrow>
            mat_get (matrix w') (fst (position (objs w e))) (snd (position (objs w e))) =
              Inr (Some e) \<and>
            entities w' = entities w @ [e] \<and> objs w' = objs w)"
proof (intro conjI impI allI)
  let ?x = "fst (position (objs w e))" and ?y = "snd (position (objs w e))"
  assume r: "- height w \<le> ?x \<and> ?x < height w \<and> - width w \<le> ?y \<and> ?y < width w"
  from ws have h: "int (length (matrix w)) = height w" and wd: "0 \<le> width w"
    by (simp_all add: well_shaped_def)
  from r h have i: "py_index (length (matrix w)) ?x = Some (nat (?x mod height w))"
    using py_index_wrap [of "length (matrix w)" ?x] by simp
  from py_index_less [OF i] ws
  have l: "int (length (matrix w ! nat (?x mod height w))) = width w"
    by (simp add: well_shaped_def list_all_length)
  from r l have j: "py_index (length (matrix w ! nat (?x mod height w))) ?y =
                      Some (nat (?y mod width w))"
    using py_index_wrap [of "length (matrix w ! nat (?x mod height w))" ?y] by simp
  from i j show "add_entity w e =
              Inr (w\<lparr>matrix :=
                       (matrix w)[nat (?x mod height w) :=
                          (matrix w ! nat (?x mod height w))[nat (?y mod width w) := Some e]],
                     entities := entities w @ [e]\<rparr>)"
    by (simp add: add_entity_def mat_set_def)
next
  let ?x = "fst (position (objs w e))" and ?y = "snd (position (objs w e))"
  assume r: "\<not> (- height w \<le> ?x \<and> ?x < height w \<and> - width w \<le> ?y \<and> ?y < width w)"
  from ws have h: "int (length (matrix w)) = height w"
    by (simp add: well_shaped_def)
  show "add_entity w e = Inl IndexError"
  proof (cases "- height w \<le> ?x \<and> ?x < height w")
    case False
    with h have "py_index (length (matrix w)) ?x = None"
      using py_index_outside [of ?x "length (matrix w)"] by auto
    then show ?thesis by (simp add: add_entity_def mat_set_def)
  next
    case True
    with h have i: "py_index (length (matrix w)) ?x = Some (nat (?x mod height w))"
      using py_index_wrap [of "length (matrix w)" ?x] by simp
    from py_index_less [OF i] ws
    have l: "int (length (matrix w ! nat (?x mod height w))) = width w"
      by (simp add: well_shaped_def list_all_length)
    from True r l have "py_index (length (matrix w ! nat (?x mod height w))) ?y = None"
      using py_index_outside [of ?y "length (matrix w ! nat (?x mod height w))"] by auto
    with i show ?thesis by (simp add: add_entity_def mat_set_def)
  qed
next
  fix w'
  assume a: "add_entity w e = Inr w'"
  then obtain m where s: "mat_set (matrix w) (fst (position (objs w e)))
                            (snd (position (objs w e))) (Some e) = Inr m"
    and w': "w' = w\<lparr>matrix := m, entities := entities w @ [e]\<rparr>"
    by (auto simp: add_entity_def split: sum.splits)
  from mat_set_then_get [OF s] w'
  show "mat_get (matrix w') (fst (position (objs w e))) (snd (position (objs w e))) =
          Inr (Some e)" by simp
  from w' show "entities w' = entities w @ [e]" by simp
  from w' show "objs w' = objs w" by simp
qed

theorem add_entity_unchecked_witness:
  "well_shaped occupied_world \<and>
   position (objs occupied_world 1) = (0, 0) \<and>
   mat_get (matrix occupied_world) 0 0 = Inr (Some 0) \<and>
   add_entity occupied_world 1 =
     Inr (occupied_world\<lparr>matrix := [[Some 1, None]], entities := [0, 1]\<rparr>)"
proof -
  have ws: "well_shaped occupied_world"
    by (simp add: well_shaped_def occupied_world_def World_init_def)
  have p: "position (objs occupied_world 1) = (0, 0)"
    by (simp add: occupied_world_def blank_def)
  have g: "mat_get (matrix occupied_world) 0 0 = Inr (Some 0)"
    by (simp add: occupied_world_def mat_get_def py_index_def)
  have h: "height occupied_world = 1" and wd: "width occupied_world = 2"
    and m: "matrix occupied_world = [[Some 0, None]]" and e: "entities occupied_world = [0]"
    by (simp_all add: occupied_world_def World_init_def)
  have r: "- height occupied_world \<le> fst (position (objs occupied_world 1)) \<and>
           fst (position (objs occupied_world 1)) < height occupied_world \<and>
           - width occupied_world \<le> snd (position (objs occupied_world 1)) \<and>
           snd (position (objs occupied_world 1)) < width occupied_world"
    unfolding p h wd by simp
  from add_entity_unchecked [OF ws, of 1] r
  have a: "add_entity occupied_world 1 =
             Inr (occupied_world\<lparr>matrix :=
                       (matrix occupied_world)
                         [nat (fst (position (objs occupied_world 1)) mod height occupied_world) :=
                          (matrix occupied_world !
                             nat (fst (position (objs occupied_world 1)) mod height occupied_world))
                            [nat (snd (position (objs occupied_world 1)) mod width occupied_world) :=
                               Some 1]],
                     entities := entities occupied_world @ [1]\<rparr>)"
    by blast
  have "add_entity occupied_world 1 =
     Inr (occupied_world\<lparr>matrix := [[Some 1, None]], entities := [0, 1]\<rparr>)"
    unfolding a p h wd m e by simp
  with ws p g show ?thesis by blast
qed

section \<open>Self-modification\<close>

lemma upd_obj_objs [simp]: "objs (upd_obj w e f) = (objs w)(e := f (objs w e))"
  by (simp add: upd_obj_def)

lemma upd_obj_grps [simp]: "grps (upd_obj w e f) = grps w"
  by (simp add: upd_obj_def)

lemma check_malheureux_idem:
  "check_self_modification_malheureux (check_self_modification_malheureux w e) e =
   check_self_modification_malheureux w e"
  by (simp add: check_self_modification_malheureux_def)

lemma check_pauvre_idem:
  "check_self_modification_pauvre (check_self_modification_pauvre w e) e =
   check_self_modification_pauvre w e"
  by (simp add: check_self_modification_pauvre_def)

lemma check_cls [simp]: "cls (objs (check_self_modification_malheureux w e) e') = cls (objs w e')"
  "cls (objs (check_self_modification_pauvre w e) e') = cls (objs w e')"
  by (simp_all add: check_self_modification_malheureux_def check_self_modification_pauvre_def)

text \<open>
  Running a check twice is running it once, and for an entity that carries its
  flag (\<open>_is_predatory\<close> for \<open>Malheureux\<close>, \<open>_is_aggressive\<close> for \<open>Pauvre\<close> and for
  plants) the check changes nothing.
\<close>

lemma check_self_modification_idem:
  "check_self_modification (check_self_modification w e) e = check_self_modification w e"
  "check_self_modification_plant (check_self_modification_plant w e t) e t' =
     check_self_modification_plant w e t"
  "cls (objs w e) = Malheureux \<Longrightarrow> has_is_predatory (objs w e) \<Longrightarrow> check_self_modification w e = w"
  "cls (objs w e) = Pauvre \<Longrightarrow> has_is_aggressive (objs w e) \<Longrightarrow> check_self_modification w e = w"
  "has_is_aggressive (objs w e) \<Longrightarrow> check_self_modification_plant w e t = w"
  by (simp_all add: check_self_modification_def check_malheureux_idem check_pauvre_idem
      check_self_modification_malheureux_def check_self_modification_pauvre_def
      check_self_modification_plant_def)

section \<open>The neighbourhood of radius 2\<close>

lemma upto_m2_2: "[- 2..2] = [- 2, - 1, 0, 1, 2::int]"
  by (simp add: upto_rec1)

lemma offsets_2:
  "offsets 2 =
     [(- 2, - 2), (- 2, - 1), (- 2, 0), (- 2, 1), (- 2, 2),
      (- 1, - 2), (- 1, - 1), (- 1, 0), (- 1, 1), (- 1, 2),
      (0, - 2), (0, - 1), (0, 0), (0, 1), (0, 2),
      (1, - 2), (1, - 1), (1, 0), (1, 1), (1, 2),
      (2, - 2), (2, - 1), (2, 0), (2, 1), (2, 2)]"
  unfolding offsets_def upto_m2_2 by simp

section \<open>The spread of a mutated plant\<close>

text \<open>
  Claim C4 says that a mutated plant with a free adjacent cell spawns a plant of
  its species with probability 0.75 or 0.9.  \<open>aggressive_spread\<close> never spawns: it
  asks \<open>_can_replace\<close> about the position tuple, which is never an instance of a
  competitor class, and its other branch is guarded by \<open>target is None\<close>.  For
  every world and every draw it returns \<open>False\<close> and changes nothing but the
  number of draws consumed.
\<close>

theorem aggressive_spread_never_spawns:
  "aggressive_spread w self =
     (case get_free_adjacent_cells w (position (objs w self)) of
        Inl e \<Rightarrow> Inl e
      | Inr target \<Rightarrow> Inr (False, if target \<noteq> [] then w\<lparr>rnd_pos := rnd_pos w + 1\<rparr> else w))"
  by (simp add: aggressive_spread_def can_replace_def choice_def Let_def split: sum.split)

theorem aggressive_spread_never_spawns_witness:
  "spread_rebound (objs mutated_world 2) \<and>
   get_free_adjacent_cells mutated_world (position (objs mutated_world 2)) = Inr [(0, 3)] \<and>
   try_spread mutated_world 2 = Inr (False, mutated_world\<lparr>rnd_pos := 1\<rparr>)"
proof -
  have a: "spread_rebound (objs mutated_world 2)"
    by (simp add: mutated_world_def blank_def)
  have f: "get_free_adjacent_cells mutated_world (position (objs mutated_world 2)) = Inr [(0, 3)]"
    by (simp add: get_free_adjacent_cells_def is_valid_position_def mutated_world_def blank_def
        World_init_def mat_get_def py_index_def)
  have r: "rnd_pos mutated_world = 0"
    by (simp add: mutated_world_def World_init_def)
  from aggressive_spread_never_spawns [of mutated_world 2] a f r
  show ?thesis by (simp add: try_spread_def)
qed

section \<open>The merge of a mutated animal\<close>

text \<open>
  What the body of \<open>predatory_merge\<close> would do for the first \<open>Malheureux\<close> of
  \<open>predatory_world\<close>: absorb the neighbour, whose group has two members, without
  a draw.
\<close>

lemma predatory_merge_body:
  "\<exists>w'. predatory_merge (check_self_modification predatory_world 0) 0 = Inr w' \<and>
        grps w' 0 = [0, 2, 3, 4, 5, 6, 1, 7] \<and> group (objs w' 1) = 0 \<and> 1 \<notin> set (entities w')"
  by (simp add: predatory_merge_def get_nearby_objects_def offsets_2 predatory_world_def blank_def
      World_init_def mat_get_def mat_set_def py_index_def check_self_modification_def
      check_self_modification_malheureux_def upd_obj_def absorb_def repoint_def Let_def)

text \<open>
  Claim C7 says that in the mutated merge mode the first same-species neighbour
  whose group has fewer than three members is absorbed unconditionally.  The
  body is never reached: for a \<open>Malheureux\<close> whose group list has more than five
  entries, an update in one of its active phases sets the flag, rebinds the
  method, and raises \<open>TypeError\<close> at the call \<open>self.try_merge_groups(world)\<close>.
\<close>

theorem mutated_merge_raises:
  assumes "cls (objs w self) = Malheureux"
    and "length (grps w (group (objs w self))) > 5"
    and "has_is_predatory (objs w self) = merge_rebound (objs w self)"
    and "day_time = Morning \<or> day_time = Evening"
  shows "update_state w self day_time = Some (Inl TypeError)"
  using assms
  by (auto simp: update_state_def is_animal_def animal_update_state_def Let_def
      change_active_status_def active_times_def change_hungry_status_def
      change_speed_status_def check_self_modification_def
      check_self_modification_malheureux_def call_try_merge_groups_def upd_obj_def)

theorem mutated_merge_raises_witness:
  "cls (objs predatory_world 0) = Malheureux \<and>
   length (grps predatory_world (group (objs predatory_world 0))) = 6 \<and>
   \<not> has_is_predatory (objs predatory_world 0) \<and> \<not> merge_rebound (objs predatory_world 0) \<and>
   get_nearby_objects predatory_world (position (objs predatory_world 0)) 2 = Inr [1] \<and>
   cls (objs predatory_world 1) = Malheureux \<and>
   length (grps predatory_world (group (objs predatory_world 1))) = 2 \<and>
   update_state predatory_world 0 Morning = Some (Inl TypeError)"
proof -
  have a: "cls (objs predatory_world 0) = Malheureux"
    and b: "length (grps predatory_world (group (objs predatory_world 0))) = 6"
    and c: "\<not> has_is_predatory (objs predatory_world 0)" "\<not> merge_rebound (objs predatory_world 0)"
    and d: "cls (objs predatory_world 1) = Malheureux"
    and e: "length (grps predatory_world (group (objs predatory_world 1))) = 2"
    by (simp_all add: predatory_world_def blank_def)
  have n: "get_nearby_objects predatory_world (position (objs predatory_world 0)) 2 = Inr [1]"
    by (simp add: get_nearby_objects_def offsets_2 predatory_world_def blank_def World_init_def
        mat_get_def py_index_def)
  from mutated_merge_raises [of predatory_world 0 Morning] a b c
  have "update_state predatory_world 0 Morning = Some (Inl TypeError)" by simp
  with a b c d e n show ?thesis by simp
qed

section \<open>Merging groups\<close>

lemma remove_group_effect:
  "remove_group w ms = Inr w' \<Longrightarrow> distinct (entities w) \<Longrightarrow>
     objs w' = objs w \<and> grps w' = grps w \<and> rnd_pos w' = rnd_pos w \<and> rnd w' = rnd w \<and>
     distinct (entities w') \<and> set (entities w') = set (entities w) - set ms"
proof (induction ms arbitrary: w)
  case Nil
  then show ?case by simp
next
  case (Cons a ms)
  show ?case
  proof (cases "a \<in> set (entities w)")
    case True
    with Cons.prems obtain m where
      m: "mat_set (matrix w) (fst (position (objs w a))) (snd (position (objs w a))) None = Inr m"
      and r: "remove_group (w\<lparr>entities := remove1 a (entities w), matrix := m\<rparr>) ms = Inr w'"
      by (auto split: sum.splits)
    from Cons.IH [OF r] Cons.prems(2) show ?thesis by auto
  next
    case False
    with Cons.prems have r: "remove_group w ms = Inr w'" by simp
    from Cons.IH [OF r Cons.prems(2)] False show ?thesis by auto
  qed
qed

lemma repoint_apply:
  "repoint g ms obs m = (if m \<in> set ms then (obs m)\<lparr>group := g\<rparr> else obs m)"
  unfolding repoint_def
  by (induction ms arbitrary: obs) auto

lemma absorb_effect:
  assumes a: "absorb w self entity = Inr w'" and d: "distinct (entities w)"
  shows "grps w' (group (objs w self)) =
           grps w (group (objs w self)) @ grps w (group (objs w entity)) \<and>
         group (objs w' self) = group (objs w self) \<and>
         (\<forall>m \<in> set (grps w (group (objs w entity))).
             group (objs w' m) = group (objs w self) \<and> m \<notin> set (entities w')) \<and>
         set (entities w') \<subseteq> set (entities w) \<and> rnd_pos w' = rnd_pos w"
proof -
  let ?gs = "group (objs w self)" and ?ge = "group (objs w entity)"
  let ?w1 = "w\<lparr>grps := (grps w)(?gs := grps w ?gs @ grps w ?ge)\<rparr>"
  let ?w2 = "?w1\<lparr>objs := repoint ?gs (grps ?w1 ?ge) (objs ?w1)\<rparr>"
  let ?L = "grps ?w2 (group (objs ?w2 entity))"
  from a have r: "remove_group ?w2 ?L = Inr w'"
    by (simp add: absorb_def Let_def)
  have d2: "distinct (entities ?w2)" using d by simp
  note e = remove_group_effect [OF r d2]
  have sub: "set (grps w ?ge) \<subseteq> set ?L"
    by (auto simp: repoint_apply)
  have g1: "grps w' ?gs = grps w ?gs @ grps w ?ge" using e by simp
  have g2: "group (objs w' self) = ?gs" using e by (simp add: repoint_apply)
  have g3: "\<forall>m \<in> set (grps w ?ge). group (objs w' m) = ?gs \<and> m \<notin> set (entities w')"
  proof
    fix m assume m: "m \<in> set (grps w ?ge)"
    then have "m \<in> set (grps ?w1 ?ge)" by auto
    then have "group (objs w' m) = ?gs" using e by (simp add: repoint_apply)
    moreover have "m \<notin> set (entities w')" using e sub m by auto
    ultimately show "group (objs w' m) = ?gs \<and> m \<notin> set (entities w')" by simp
  qed
  have g4: "set (entities w') \<subseteq> set (entities w)" using e by auto
  have g5: "rnd_pos w' = rnd_pos w" using e by simp
  from g1 g2 g3 g4 g5 show ?thesis by simp
qed

lemma mat_set_None_keeps_None:
  assumes s: "mat_set m x y None = Inr m'" and g: "mat_get m x' y' = Inr None"
  shows "mat_get m' x' y' = Inr None"
proof -
  from s obtain i j where i: "py_index (length m) x = Some i"
    and j: "py_index (length (m ! i)) y = Some j"
    and m': "m' = m[i := (m ! i)[j := None]]"
    by (auto simp: mat_set_def split: option.splits)
  from g obtain i' j' where i': "py_index (length m) x' = Some i'"
    and j': "py_index (length (m ! i')) y' = Some j'"
    and c: "m ! i' ! j' = None"
    by (auto simp: mat_get_def split: option.splits)
  note li = py_index_less [OF i] and lj = py_index_less [OF j]
    and li' = py_index_less [OF i'] and lj' = py_index_less [OF j']
  show ?thesis
  proof (cases "i' = i")
    case True
    with li lj lj' c have "m' ! i' ! j' = None"
      unfolding m' by (cases "j' = j") simp_all
    with True i i' j' li m' show ?thesis by (simp add: mat_get_def)
  next
    case False
    then have "m' ! i' = m ! i'" unfolding m' by simp
    with i' j' c m' show ?thesis by (simp add: mat_get_def)
  qed
qed

lemma remove_group_keeps_None:
  "remove_group w ms = Inr w' \<Longrightarrow> mat_get (matrix w) x y = Inr None \<Longrightarrow>
     mat_get (matrix w') x y = Inr None"
proof (induction ms arbitrary: w)
  case Nil
  then show ?case by simp
next
  case (Cons a ms)
  show ?case
  proof (cases "a \<in> set (entities w)")
    case True
    with Cons.prems obtain m where
      m: "mat_set (matrix w) (fst (position (objs w a))) (snd (position (objs w a))) None = Inr m"
      and r: "remove_group (w\<lparr>entities := remove1 a (entities w), matrix := m\<rparr>) ms = Inr w'"
      by (auto split: sum.splits)
    from mat_set_None_keeps_None [OF m Cons.prems(2)]
    have "mat_get (matrix (w\<lparr>entities := remove1 a (entities w), matrix := m\<rparr>)) x y = Inr None"
      by simp
    from Cons.IH [OF r this] show ?thesis .
  next
    case False
    with Cons.prems have r: "remove_group w ms = Inr w'" by simp
    from Cons.IH [OF r Cons.prems(2)] show ?thesis .
  qed
qed

lemma remove_group_vacates:
  "remove_group w ms = Inr w' \<Longrightarrow> a \<in> set ms \<Longrightarrow> a \<in> set (entities w) \<Longrightarrow>
     mat_get (matrix w') (fst (position (objs w a))) (snd (position (objs w a))) = Inr None"
proof (induction ms arbitrary: w)
  case Nil
  then show ?case by simp
next
  case (Cons b ms)
  let ?x = "fst (position (objs w a))" and ?y = "snd (position (objs w a))"
  show ?case
  proof (cases "b \<in> set (entities w)")
    case True
    with Cons.prems obtain m where
      m: "mat_set (matrix w) (fst (position (objs w b))) (snd (position (objs w b))) None = Inr m"
      and r: "remove_group (w\<lparr>entities := remove1 b (entities w), matrix := m\<rparr>) ms = Inr w'"
      by (auto split: sum.splits)
    let ?w1 = "w\<lparr>entities := remove1 b (entities w), matrix := m\<rparr>"
    show ?thesis
    proof (cases "a = b")
      case True
      from mat_set_then_get [OF m] True
      have "mat_get (matrix ?w1) ?x ?y = Inr None" by simp
      from remove_group_keeps_None [OF r this] show ?thesis .
    next
      case False
      with Cons.prems have "a \<in> set ms" and "a \<in> set (entities ?w1)" by simp_all
      from Cons.IH [OF r this] show ?thesis by simp
    qed
  next
    case False
    with Cons.prems have r: "remove_group w ms = Inr w'" and "a \<in> set ms" by auto
    from Cons.IH [OF r this(2) Cons.prems(3)] show ?thesis .
  qed
qed

lemma absorb_vacates:
  assumes a: "absorb w self entity = Inr w'"
    and m: "member \<in> set (grps w (group (objs w entity)))"
    and l: "member \<in> set (entities w)"
  shows "mat_get (matrix w') (fst (position (objs w member))) (snd (position (objs w member))) =
           Inr None"
proof -
  let ?gs = "group (objs w self)" and ?ge = "group (objs w entity)"
  let ?w1 = "w\<lparr>grps := (grps w)(?gs := grps w ?gs @ grps w ?ge)\<rparr>"
  let ?w2 = "?w1\<lparr>objs := repoint ?gs (grps ?w1 ?ge) (objs ?w1)\<rparr>"
  let ?L = "grps ?w2 (group (objs ?w2 entity))"
  from a have r: "remove_group ?w2 ?L = Inr w'"
    by (simp add: absorb_def Let_def)
  have sub: "member \<in> set ?L" using m by (auto simp: repoint_apply)
  have l2: "member \<in> set (entities ?w2)" using l by simp
  have p: "position (objs ?w2 member) = position (objs w member)"
    by (simp add: repoint_apply)
  from remove_group_vacates [OF r sub l2] p show ?thesis by simp
qed

lemma merge_loop_outcome:
  "merge_loop w self es = Inr w' \<Longrightarrow>
     (\<exists>k. rnd_pos w \<le> k \<and> k \<le> rnd_pos w + length es \<and> w' = w\<lparr>rnd_pos := k\<rparr>) \<or>
     (\<exists>entity \<in> set es. \<exists>k. rnd_pos w < k \<and> k \<le> rnd_pos w + length es \<and>
         cls (objs w entity) = cls (objs w self) \<and> entity \<noteq> self \<and>
         absorb (w\<lparr>rnd_pos := k\<rparr>) self entity = Inr w')"
proof (induction es arbitrary: w)
  case Nil
  then have "w' = w\<lparr>rnd_pos := rnd_pos w\<rparr>" by simp
  then show ?case by auto
next
  case (Cons a es)
  let ?w1 = "w\<lparr>rnd_pos := rnd_pos w + 1\<rparr>"
  have s: "snd (random_random w) = ?w1" by (simp add: random_random_def)
  show ?case
  proof (cases "cls (objs w a) = cls (objs w self) \<and> a \<noteq> self")
    case cand: True
    show ?thesis
    proof (cases "fst (random_random w) < 25 / 100")
      case True
      with cand Cons.prems s have "absorb ?w1 self a = Inr w'" by simp
      with cand show ?thesis
        by (intro disjI2 bexI [of _ a] exI [of _ "rnd_pos w + 1"]) simp_all
    next
      case False
      with cand Cons.prems s have "merge_loop ?w1 self es = Inr w'" by simp
      from Cons.IH [OF this] show ?thesis
      proof
        assume "\<exists>k. rnd_pos ?w1 \<le> k \<and> k \<le> rnd_pos ?w1 + length es \<and> w' = ?w1\<lparr>rnd_pos := k\<rparr>"
        then obtain k where "rnd_pos w + 1 \<le> k" "k \<le> rnd_pos w + 1 + length es"
          "w' = w\<lparr>rnd_pos := k\<rparr>" by auto
        then show ?thesis by (intro disjI1 exI [of _ k]) simp
      next
        assume "\<exists>entity \<in> set es. \<exists>k. rnd_pos ?w1 < k \<and> k \<le> rnd_pos ?w1 + length es \<and>
           cls (objs ?w1 entity) = cls (objs ?w1 self) \<and> entity \<noteq> self \<and>
           absorb (?w1\<lparr>rnd_pos := k\<rparr>) self entity = Inr w'"
        then obtain entity k where "entity \<in> set es" "rnd_pos w + 1 < k"
          "k \<le> rnd_pos w + 1 + length es" "cls (objs w entity) = cls (objs w self)"
          "entity \<noteq> self" "absorb (w\<lparr>rnd_pos := k\<rparr>) self entity = Inr w'" by auto
        then show ?thesis
          by (intro disjI2 bexI [of _ entity] exI [of _ k]) simp_all
      qed
    qed
  next
    case False
    with Cons.prems have "merge_loop w self es = Inr w'" by auto
    from Cons.IH [OF this] show ?thesis
    proof
      assume "\<exists>k. rnd_pos w \<le> k \<and> k \<le> rnd_pos w + length es \<and> w' = w\<lparr>rnd_pos := k\<rparr>"
      then obtain k where "rnd_pos w \<le> k" "k \<le> rnd_pos w + length es"
        "w' = w\<lparr>rnd_pos := k\<rparr>" by auto
      then show ?thesis by (intro disjI1 exI [of _ k]) simp
    next
      assume "\<exists>entity \<in> set es. \<exists>k. rnd_pos w < k \<and> k \<le> rnd_pos w + length es \<and>
           cls (objs w entity) = cls (objs w self) \<and> entity \<noteq> self \<and>
           absorb (w\<lparr>rnd_pos := k\<rparr>) self entity = Inr w'"
      then obtain entity k where "entity \<in> set es" "rnd_pos w < k"
        "k \<le> rnd_pos w + length es" "cls (objs w entity) = cls (objs w self)"
        "entity \<noteq> self" "absorb (w\<lparr>rnd_pos := k\<rparr>) self entity = Inr w'" by auto
      then show ?thesis
        by (intro disjI2 bexI [of _ entity] exI [of _ k]) simp_all
    qed
  qed
qed

text \<open>
  Claim C2 says that the members of an absorbed group remain live entities on
  the grid.  They do not: \<open>try_merge_groups\<close> ends with \<open>world.remove_group\<close>, whose
  purpose is to take the absorbed animals out of the world.  In \<open>merge_world\<close> the
  first animal absorbs the second; afterwards the second points to group 0, and
  it is neither in the live list nor on the grid.
\<close>

theorem merge_removes_absorbed:
  "map_sum id (\<lambda>w'. (entities w', matrix w', group (objs w' 1), grps w' 0))
     (try_merge_groups merge_world 0) = Inr ([], [[None, None]], 0, [0, 1])"
  by (simp add: try_merge_groups_def get_nearby_objects_def offsets_2 merge_world_def blank_def
      World_init_def mat_get_def mat_set_def py_index_def random_random_def absorb_def
      repoint_def Let_def)

text \<open>
  Claim C2, amended.  A merge attempt that returns either leaves the world as it
  was, up to the draws consumed (at most one for each neighbour of the scan), or
  it merges exactly one neighbour found by the scan of radius 2, of the same
  species and other than the animal itself, completely: the members of the
  neighbour's group list are appended to the group list of this animal, every
  one of them points to that list, every one of them is removed from the live
  entities, and the cell at the position of every one of them that was live is
  vacated.
\<close>

theorem merge_all_or_nothing:
  assumes m: "try_merge_groups w self = Inr w'" and d: "distinct (entities w)"
  shows "\<exists>nearby. get_nearby_objects w (position (objs w self)) 2 = Inr nearby \<and>
         ((\<exists>k. rnd_pos w \<le> k \<and> k \<le> rnd_pos w + length nearby \<and> w' = w\<lparr>rnd_pos := k\<rparr>) \<or>
          (\<exists>entity \<in> set nearby.
             cls (objs w entity) = cls (objs w self) \<and> entity \<noteq> self \<and>
             grps w' (group (objs w self)) =
               grps w (group (objs w self)) @ grps w (group (objs w entity)) \<and>
             group (objs w' self) = group (objs w self) \<and>
             (\<forall>member \<in> set (grps w (group (objs w entity))).
                 group (objs w' member) = group (objs w self) \<and>
                 member \<notin> set (entities w') \<and>
                 (member \<in> set (entities w) \<longrightarrow>
                    mat_get (matrix w') (fst (position (objs w member)))
                      (snd (position (objs w member))) = Inr None))))"
proof -
  from m obtain nearby where n: "get_nearby_objects w (position (objs w self)) 2 = Inr nearby"
    and l: "merge_loop w self nearby = Inr w'"
    by (auto simp: try_merge_groups_def split: sum.splits)
  from merge_loop_outcome [OF l]
  have "(\<exists>k. rnd_pos w \<le> k \<and> k \<le> rnd_pos w + length nearby \<and> w' = w\<lparr>rnd_pos := k\<rparr>) \<or>
          (\<exists>entity \<in> set nearby.
             cls (objs w entity) = cls (objs w self) \<and> entity \<noteq> self \<and>
             grps w' (group (objs w self)) =
               grps w (group (objs w self)) @ grps w (group (objs w entity)) \<and>
             group (objs w' self) = group (objs w self) \<and>
             (\<forall>member \<in> set (grps w (group (objs w entity))).
                 group (objs w' member) = group (objs w self) \<and>
                 member \<notin> set (entities w') \<and>
                 (member \<in> set (entities w) \<longrightarrow>
                    mat_get (matrix w') (fst (position (objs w member)))
                      (snd (position (objs w member))) = Inr None)))"
  proof
    assume "\<exists>k. rnd_pos w \<le> k \<and> k \<le> rnd_pos w + length nearby \<and> w' = w\<lparr>rnd_pos := k\<rparr>"
    then show ?thesis by (rule disjI1)
  next
    assume "\<exists>entity \<in> set nearby. \<exists>k. rnd_pos w < k \<and> k \<le> rnd_pos w + length nearby \<and>
         cls (objs w entity) = cls (objs w self) \<and> entity \<noteq> self \<and>
         absorb (w\<lparr>rnd_pos := k\<rparr>) self entity = Inr w'"
    then obtain entity k where e: "entity \<in> set nearby"
      and c: "cls (objs w entity) = cls (objs w self)" "entity \<noteq> self"
      and a: "absorb (w\<lparr>rnd_pos := k\<rparr>) self entity = Inr w'" by blast
    let ?wk = "w\<lparr>rnd_pos := k\<rparr>"
    have d': "distinct (entities ?wk)" using d by simp
    note ae = absorb_effect [OF a d']
    have v: "\<forall>member \<in> set (grps w (group (objs w entity))).
                 group (objs w' member) = group (objs w self) \<and>
                 member \<notin> set (entities w') \<and>
                 (member \<in> set (entities w) \<longrightarrow>
                    mat_get (matrix w') (fst (position (objs w member)))
                      (snd (position (objs w member))) = Inr None)"
    proof (intro ballI conjI impI)
      fix member
      assume mb: "member \<in> set (grps w (group (objs w entity)))"
      with ae show "group (objs w' member) = group (objs w self)" by simp
      from mb ae show "member \<notin> set (entities w')" by simp
      assume lv: "member \<in> set (entities w)"
      from mb have mb': "member \<in> set (grps ?wk (group (objs ?wk entity)))" by simp
      from lv have lv': "member \<in> set (entities ?wk)" by simp
      from absorb_vacates [OF a mb' lv']
      show "mat_get (matrix w') (fst (position (objs w member)))
              (snd (position (objs w member))) = Inr None" by simp
    qed
    from ae have g1: "grps w' (group (objs w self)) =
               grps w (group (objs w self)) @ grps w (group (objs w entity))"
      and g2: "group (objs w' self) = group (objs w self)" by simp_all
    from e c g1 g2 v show ?thesis
      by (intro disjI2 bexI [of _ entity] conjI) assumption+
  qed
  with n show ?thesis by blast
qed

theorem merge_all_or_nothing_witness:
  "distinct (entities merge_world) \<and>
   get_nearby_objects merge_world (position (objs merge_world 0)) 2 = Inr [1] \<and>
   (\<exists>w'. try_merge_groups merge_world 0 = Inr w' \<and>
      ((\<exists>k. rnd_pos merge_world \<le> k \<and> k \<le> rnd_pos merge_world + length [1::nat] \<and>
            w' = merge_world\<lparr>rnd_pos := k\<rparr>) \<or>
       (\<exists>entity \<in> set [1].
            cls (objs merge_world entity) = cls (objs merge_world 0) \<and> entity \<noteq> 0 \<and>
            grps w' (group (objs merge_world 0)) =
              grps merge_world (group (objs merge_world 0)) @
              grps merge_world (group (objs merge_world entity)) \<and>
            group (objs w' 0) = group (objs merge_world 0) \<and>
            (\<forall>member \<in> set (grps merge_world (group (objs merge_world entity))).
                group (objs w' member) = group (objs merge_world 0) \<and>
                member \<notin> set (entities w') \<and>
                (member \<in> set (entities merge_world) \<longrightarrow>
                   mat_get (matrix w') (fst (position (objs merge_world member)))
                     (snd (position (objs merge_world member))) = Inr None)))))"
proof -
  have d: "distinct (entities merge_world)"
    by (simp add: merge_world_def)
  have n: "get_nearby_objects merge_world (position (objs merge_world 0)) 2 = Inr [1]"
    by (simp add: get_nearby_objects_def offsets_2 merge_world_def blank_def World_init_def
        mat_get_def py_index_def)
  have "\<exists>w'. try_merge_groups merge_world 0 = Inr w'"
    by (simp add: try_merge_groups_def get_nearby_objects_def offsets_2 merge_world_def blank_def
      World_init_def mat_get_def mat_set_def py_index_def random_random_def absorb_def
      repoint_def Let_def)
  then obtain w' where m: "try_merge_groups merge_world 0 = Inr w'" ..
  from merge_all_or_nothing [OF m d] n
  have "(\<exists>k. rnd_pos merge_world \<le> k \<and> k \<le> rnd_pos merge_world + length [1::nat] \<and>
            w' = merge_world\<lparr>rnd_pos := k\<rparr>) \<or>
       (\<exists>entity \<in> set [1].
            cls (objs merge_world entity) = cls (objs merge_world 0) \<and> entity \<noteq> 0 \<and>
            grps w' (group (objs merge_world 0)) =
              grps merge_world (group (objs merge_world 0)) @
              grps merge_world (group (objs merge_world entity)) \<and>
            group (objs w' 0) = group (objs merge_world 0) \<and>
            (\<forall>member \<in> set (grps merge_world (group (objs merge_world entity))).
                group (objs w' member) = group (objs merge_world 0) \<and>
                member \<notin> set (entities w') \<and>
                (member \<in> set (entities merge_world) \<longrightarrow>
                   mat_get (matrix w') (fst (position (objs merge_world member)))
                     (snd (position (objs merge_world member))) = Inr None)))"
    by auto
  with m d n show ?thesis by blast
qed

section \<open>The scan of a merge attempt\<close>

lemma random_random_next:
  "fst (random_random w) = next_random w 0"
  "snd (random_random w) = w\<lparr>rnd_pos := rnd_pos w + 1\<rparr>"
  by (simp_all add: random_random_def next_random_def)

lemma next_random_shift:
  "next_random (w\<lparr>rnd_pos := rnd_pos w + 1\<rparr>) i = next_random w (Suc i)"
  "next_random (w\<lparr>rnd_pos := Suc (rnd_pos w)\<rparr>) i = next_random w (Suc i)"
  by (simp_all add: next_random_def)

lemma merge_loop_filter:
  "merge_loop w self es =
     merge_loop w self (filter (\<lambda>e. cls (objs w e) = cls (objs w self) \<and> e \<noteq> self) es)"
proof (induction es arbitrary: w)
  case Nil
  show ?case by simp
next
  case (Cons a es)
  from Cons.IH [of w] Cons.IH [of "snd (random_random w)"]
  show ?case by (simp add: random_random_def)
qed

lemma merge_loop_first:
  "j < length cs \<Longrightarrow> \<forall>e \<in> set cs. cls (objs w e) = cls (objs w self) \<and> e \<noteq> self \<Longrightarrow>
   \<forall>i < j. \<not> next_random w i < 1 / 4 \<Longrightarrow> next_random w j < 1 / 4 \<Longrightarrow>
   merge_loop w self cs = absorb (w\<lparr>rnd_pos := rnd_pos w + j + 1\<rparr>) self (cs ! j)"
proof (induction cs arbitrary: w j)
  case Nil
  then show ?case by simp
next
  case (Cons c cs)
  show ?case
  proof (cases j)
    case 0
    with Cons.prems show ?thesis by (simp add: random_random_next)
  next
    case (Suc j')
    let ?w1 = "w\<lparr>rnd_pos := rnd_pos w + 1\<rparr>"
    from Cons.prems Suc have f: "\<not> next_random w 0 < 1 / 4" by simp
    have a: "j' < length cs" using Cons.prems Suc by simp
    have b: "\<forall>e \<in> set cs. cls (objs ?w1 e) = cls (objs ?w1 self) \<and> e \<noteq> self"
      using Cons.prems by simp
    have c: "\<forall>i < j'. \<not> next_random ?w1 i < 1 / 4"
      using Cons.prems Suc by (auto simp: next_random_shift)
    have d: "next_random ?w1 j' < 1 / 4"
      using Cons.prems Suc by (simp add: next_random_shift)
    from Cons.IH [OF a b c d] f Cons.prems Suc show ?thesis
      by (simp add: random_random_next)
  qed
qed

lemma merge_loop_none:
  "\<forall>e \<in> set cs. cls (objs w e) = cls (objs w self) \<and> e \<noteq> self \<Longrightarrow>
   \<forall>i < length cs. \<not> next_random w i < 1 / 4 \<Longrightarrow>
   merge_loop w self cs = Inr (w\<lparr>rnd_pos := rnd_pos w + length cs\<rparr>)"
proof (induction cs arbitrary: w)
  case Nil
  show ?case by simp
next
  case (Cons c cs)
  let ?w1 = "w\<lparr>rnd_pos := rnd_pos w + 1\<rparr>"
  from Cons.prems have f: "\<not> next_random w 0 < 1 / 4" by auto
  have b: "\<forall>e \<in> set cs. cls (objs ?w1 e) = cls (objs ?w1 self) \<and> e \<noteq> self"
    using Cons.prems by simp
  have c: "\<forall>i < length cs. \<not> next_random ?w1 i < 1 / 4"
    using Cons.prems by (auto simp: next_random_shift)
  from Cons.IH [OF b c] f Cons.prems show ?case
    by (simp add: random_random_next)
qed

text \<open>
  Claim C6 says that the merge step draws for the first neighbour of the same
  species whose group differs from the animal's own.  \<open>try_merge_groups\<close> tests
  the class of the neighbour and that it is not the animal itself, and nothing
  else.  In \<open>same_group_world\<close> the two animals share one group, and the first
  merges with the second all the same: the shared list is extended by itself,
  and \<open>remove_group\<close> then takes both animals out of the world.
\<close>

theorem merge_ignores_group_identity:
  "group (objs same_group_world 0) = group (objs same_group_world 1) \<and>
   map_sum id (\<lambda>w'. (grps w' 0, entities w', matrix w'))
     (try_merge_groups same_group_world 0) = Inr ([0, 1, 0, 1], [], [[None, None]])"
  by (simp add: try_merge_groups_def get_nearby_objects_def offsets_2 same_group_world_def blank_def
      World_init_def mat_get_def mat_set_def py_index_def random_random_def absorb_def
      repoint_def Let_def)

text \<open>
  Claim C6, amended.  Let \<open>cs\<close> be the neighbours within radius 2, in scan order,
  that have the class of the animal and are not the animal itself, whatever
  their group.  The merge step draws once for each of them, in order, until a
  draw is below 0.25.  If the draw for candidate \<open>j\<close> is the first such draw, the
  step absorbs that candidate after \<open>j + 1\<close> draws and scans no further; if no
  draw is below 0.25, the step only consumes one draw for each candidate.
  Absorbing appends the members of the candidate's group list to the group list
  of the animal, points every one of them to that list, and removes every one of
  them from the live entities.
\<close>

theorem merge_first_success:
  assumes n: "get_nearby_objects w (position (objs w self)) 2 = Inr nearby"
    and cs: "cs = filter (\<lambda>e. cls (objs w e) = cls (objs w self) \<and> e \<noteq> self) nearby"
  shows "(\<forall>j < length cs. (\<forall>i < j. \<not> next_random w i < 1 / 4) \<and> next_random w j < 1 / 4 \<longrightarrow>
            try_merge_groups w self = absorb (w\<lparr>rnd_pos := rnd_pos w + j + 1\<rparr>) self (cs ! j))
       \<and> ((\<forall>i < length cs. \<not> next_random w i < 1 / 4) \<longrightarrow>
            try_merge_groups w self = Inr (w\<lparr>rnd_pos := rnd_pos w + length cs\<rparr>))
       \<and> (\<forall>w0 entity w'. absorb w0 self entity = Inr w' \<and> distinct (entities w0) \<longrightarrow>
            grps w' (group (objs w0 self)) =
              grps w0 (group (objs w0 self)) @ grps w0 (group (objs w0 entity)) \<and>
            (\<forall>member \<in> set (grps w0 (group (objs w0 entity))).
                group (objs w' member) = group (objs w0 self) \<and> member \<notin> set (entities w')))"
proof -
  have t: "try_merge_groups w self = merge_loop w self cs"
    using n cs merge_loop_filter [of w self nearby] by (simp add: try_merge_groups_def)
  have c: "\<forall>e \<in> set cs. cls (objs w e) = cls (objs w self) \<and> e \<noteq> self"
    using cs by simp
  have p1: "\<forall>j < length cs. (\<forall>i < j. \<not> next_random w i < 1 / 4) \<and> next_random w j < 1 / 4 \<longrightarrow>
            try_merge_groups w self = absorb (w\<lparr>rnd_pos := rnd_pos w + j + 1\<rparr>) self (cs ! j)"
  proof (intro allI impI)
    fix j
    assume j: "j < length cs"
      and h: "(\<forall>i < j. \<not> next_random w i < 1 / 4) \<and> next_random w j < 1 / 4"
    from h have h1: "\<forall>i < j. \<not> next_random w i < 1 / 4" and h2: "next_random w j < 1 / 4"
      by blast+
    from merge_loop_first [OF j c h1 h2] t
    show "try_merge_groups w self = absorb (w\<lparr>rnd_pos := rnd_pos w + j + 1\<rparr>) self (cs ! j)"
      by simp
  qed
  have p2: "(\<forall>i < length cs. \<not> next_random w i < 1 / 4) \<longrightarrow>
            try_merge_groups w self = Inr (w\<lparr>rnd_pos := rnd_pos w + length cs\<rparr>)"
  proof
    assume h: "\<forall>i < length cs. \<not> next_random w i < 1 / 4"
    from merge_loop_none [OF c h] t
    show "try_merge_groups w self = Inr (w\<lparr>rnd_pos := rnd_pos w + length cs\<rparr>)" by simp
  qed
  have p3: "\<forall>w0 entity w'. absorb w0 self entity = Inr w' \<and> distinct (entities w0) \<longrightarrow>
            grps w' (group (objs w0 self)) =
              grps w0 (group (objs w0 self)) @ grps w0 (group (objs w0 entity)) \<and>
            (\<forall>member \<in> set (grps w0 (group (objs w0 entity))).
                group (objs w' member) = group (objs w0 self) \<and> member \<notin> set (entities w'))"
  proof (intro allI impI)
    fix w0 entity w'
    assume h: "absorb w0 self entity = Inr w' \<and> distinct (entities w0)"
    then have a: "absorb w0 self entity = Inr w'" and d: "distinct (entities w0)" by blast+
    from absorb_effect [OF a d]
    show "grps w' (group (objs w0 self)) =
              grps w0 (group (objs w0 self)) @ grps w0 (group (objs w0 entity)) \<and>
            (\<forall>member \<in> set (grps w0 (group (objs w0 entity))).
                group (objs w' member) = group (objs w0 self) \<and> member \<notin> set (entities w'))"
      by blast
  qed
  from p1 p2 p3 show ?thesis by blast
qed

theorem merge_first_success_witness:
  "get_nearby_objects merge_world (position (objs merge_world 0)) 2 = Inr [1] \<and>
   filter (\<lambda>e. cls (objs merge_world e) = cls (objs merge_world 0) \<and> e \<noteq> 0) [1] = [1] \<and>
   next_random merge_world 0 < 1 / 4 \<and>
   try_merge_groups merge_world 0 = absorb (merge_world\<lparr>rnd_pos := 1\<rparr>) 0 1"
proof -
  have n: "get_nearby_objects merge_world (position (objs merge_world 0)) 2 = Inr [1]"
    by (simp add: get_nearby_objects_def offsets_2 merge_world_def blank_def World_init_def
        mat_get_def py_index_def)
  have cs: "filter (\<lambda>e. cls (objs merge_world e) = cls (objs merge_world 0) \<and> e \<noteq> 0) [1] = [1]"
    by (simp add: merge_world_def blank_def)
  have r: "next_random merge_world 0 < 1 / 4"
    by (simp add: next_random_def merge_world_def World_init_def)
  have p: "rnd_pos merge_world = 0"
    by (simp add: merge_world_def World_init_def)
  from merge_first_success [OF n cs [symmetric]] r p
  have m: "try_merge_groups merge_world 0 = absorb (merge_world\<lparr>rnd_pos := 1\<rparr>) 0 1"
    by simp
  from n cs r m show ?thesis by blast
qed

section \<open>The eating of a mutated animal\<close>

lemma draw_direction_hit:
  "fst (randint (- 1) 1 w) \<noteq> 0 \<or> fst (randint (- 1) 1 (snd (randint (- 1) 1 w))) \<noteq> 0 \<Longrightarrow>
   draw_direction w =
     Some (fst (randint (- 1) 1 w), fst (randint (- 1) 1 (snd (randint (- 1) 1 w))),
           snd (randint (- 1) 1 (snd (randint (- 1) 1 w))))"
  by (subst draw_direction.simps) (simp add: Let_def)

lemma draw_direction_objs:
  assumes d: "draw_direction w = Some r"
  shows "objs (snd (snd r)) = objs w"
proof (rule draw_direction.raw_induct [where P = "\<lambda>w r. objs (snd (snd r)) = objs w", OF _ d],
    goal_cases)
  case (1 dd w r)
  let ?w2 = "snd (randint (- 1) 1 (snd (randint (- 1) 1 w)))"
  have o: "objs ?w2 = objs w" by (simp add: randint_def)
  show ?case
  proof (cases "fst (randint (- 1) 1 w) \<noteq> 0 \<or> fst (randint (- 1) 1 (snd (randint (- 1) 1 w))) \<noteq> 0")
    case True
    with 1(2) have "r = (fst (randint (- 1) 1 w), fst (randint (- 1) 1 (snd (randint (- 1) 1 w))), ?w2)"
      by (simp add: Let_def)
    with o show ?thesis by simp
  next
    case False
    with 1(2) have "dd ?w2 = Some r" by (simp add: Let_def)
    from 1(1) [OF this] o show ?thesis by simp
  qed
qed

lemma remove_group_objs: "remove_group w ms = Inr w' \<Longrightarrow> objs w' = objs w"
proof (induction ms arbitrary: w)
  case Nil
  then show ?case by simp
next
  case (Cons a ms)
  show ?case
  proof (cases "a \<in> set (entities w)")
    case True
    with Cons.prems obtain m where
      r: "remove_group (w\<lparr>entities := remove1 a (entities w), matrix := m\<rparr>) ms = Inr w'"
      by (auto split: sum.splits)
    from Cons.IH [OF r] show ?thesis by simp
  next
    case False
    with Cons.prems have r: "remove_group w ms = Inr w'" by simp
    from Cons.IH [OF r] show ?thesis .
  qed
qed

lemma absorb_eat_rebound:
  assumes a: "absorb w self entity = Inr w'"
  shows "eat_rebound (objs w' x) = eat_rebound (objs w x)"
proof -
  let ?gs = "group (objs w self)" and ?ge = "group (objs w entity)"
  let ?w1 = "w\<lparr>grps := (grps w)(?gs := grps w ?gs @ grps w ?ge)\<rparr>"
  let ?w2 = "?w1\<lparr>objs := repoint ?gs (grps ?w1 ?ge) (objs ?w1)\<rparr>"
  from a have r: "remove_group ?w2 (grps ?w2 (group (objs ?w2 entity))) = Inr w'"
    by (simp add: absorb_def Let_def)
  from remove_group_objs [OF r] show ?thesis by (simp add: repoint_apply)
qed

lemma try_merge_groups_eat_rebound:
  assumes m: "call_try_merge_groups w self = Inr w'"
  shows "eat_rebound (objs w' x) = eat_rebound (objs w x)"
proof -
  from m obtain nearby where l: "merge_loop w self nearby = Inr w'"
    by (auto simp: call_try_merge_groups_def try_merge_groups_def split: if_splits sum.splits)
  from merge_loop_outcome [OF l] show ?thesis
  proof
    assume "\<exists>k. rnd_pos w \<le> k \<and> k \<le> rnd_pos w + length nearby \<and> w' = w\<lparr>rnd_pos := k\<rparr>"
    then show ?thesis by auto
  next
    assume "\<exists>entity \<in> set nearby. \<exists>k. rnd_pos w < k \<and> k \<le> rnd_pos w + length nearby \<and>
         cls (objs w entity) = cls (objs w self) \<and> entity \<noteq> self \<and>
         absorb (w\<lparr>rnd_pos := k\<rparr>) self entity = Inr w'"
    then obtain entity k where a: "absorb (w\<lparr>rnd_pos := k\<rparr>) self entity = Inr w'" by blast
    from absorb_eat_rebound [OF a, of x] show ?thesis by simp
  qed
qed

lemma move_entity_eat_rebound:
  "move_entity w e p = Inr (b, w') \<Longrightarrow> eat_rebound (objs w' x) = eat_rebound (objs w x)"
  by (auto simp: move_entity_def Let_def split: if_splits sum.splits option.splits)

lemma move_to_eat_rebound:
  assumes m: "move_to w self dx dy = Inr (b, w')"
  shows "eat_rebound (objs w' x) = eat_rebound (objs w x)"
proof (cases "is_valid_position w (fst (position (objs w self)) + dx)
                (snd (position (objs w self)) + dy)")
  case False
  with m show ?thesis by (simp add: move_to_def Let_def)
next
  case True
  with m obtain moved w1 where
    e: "move_entity w self (fst (position (objs w self)) + dx, snd (position (objs w self)) + dy) =
          Inr (moved, w1)"
    and r: "w' = (if moved then decrease_food w1 self else w1)"
    by (auto simp: move_to_def relocate_unit_def Let_def split: sum.splits if_splits)
  from move_entity_eat_rebound [OF e, of x] r show ?thesis
    by (cases moved) (auto simp: decrease_food_def)
qed

lemma move_eat_rebound:
  assumes m: "move w self = Some (Inr (b, w'))"
  shows "eat_rebound (objs w' x) = eat_rebound (objs w x)"
proof (cases "\<not> is_active (objs w self)")
  case True
  with m show ?thesis by (simp add: move_def)
next
  case act: False
  show ?thesis
  proof (cases "fst (randint 1 100 w) > speed (objs w self)")
    case True
    with act m show ?thesis by (auto simp: move_def randint_def)
  next
    case False
    with act m obtain dx dy w1 where
      d: "draw_direction (snd (randint 1 100 w)) = Some (dx, dy, w1)"
      and mt: "move_to w1 self dx dy = Inr (b, w')"
      by (auto simp: move_def split: option.splits)
    from draw_direction_objs [OF d] have "objs w1 = objs w" by (simp add: randint_def)
    with move_to_eat_rebound [OF mt, of x] show ?thesis by simp
  qed
qed

lemma status_updates_keep:
  "eat_rebound (objs (change_speed_status (change_hungry_status
      (change_active_status w self t) self) self) x) = eat_rebound (objs w x)"
  "cls (objs (change_speed_status (change_hungry_status
      (change_active_status w self t) self) self) x) = cls (objs w x)"
  "has_is_aggressive (objs (change_speed_status (change_hungry_status
      (change_active_status w self t) self) self) x) = has_is_aggressive (objs w x)"
  "food (objs (change_speed_status (change_hungry_status
      (change_active_status w self t) self) self) x) = food (objs w x)"
  by (auto simp: change_speed_status_def change_hungry_status_def change_active_status_def
      Let_def)

lemma status_updates_set:
  "is_hungry (objs (change_speed_status (change_hungry_status
      (change_active_status w self t) self) self) self) = (food (objs w self) < 30)"
  "cls (objs w self) = Pauvre \<Longrightarrow>
   is_active (objs (change_speed_status (change_hungry_status
      (change_active_status w self t) self) self) self) = (t \<noteq> Night)"
  by (cases t; auto simp: change_speed_status_def change_hungry_status_def
      change_active_status_def active_times_def Let_def)+

lemma check_keeps_status:
  "is_active (objs (check_self_modification w self) x) = is_active (objs w x)"
  "eat_rebound (objs w x) \<Longrightarrow> eat_rebound (objs (check_self_modification w self) x)"
  by (auto simp: check_self_modification_def check_self_modification_malheureux_def
      check_self_modification_pauvre_def)

lemma rebound_update_raises:
  assumes c: "cls (objs w self) = Pauvre" and t: "day_time \<noteq> Night"
    and w4: "w4 = check_self_modification (change_speed_status (change_hungry_status
                     (change_active_status w self day_time) self) self) self"
    and e: "eat_rebound (objs w4 self)"
  shows "animal_update_state w self day_time \<noteq> Some (Inr w')"
    and "call_try_merge_groups w4 self = Inr w5 \<Longrightarrow> move w5 self = Some (Inr (moved, w6)) \<Longrightarrow>
           animal_update_state w self day_time = Some (Inl TypeError)"
proof -
  have a: "is_active (objs w4 self)"
    unfolding w4 using c t by (simp add: check_keeps_status status_updates_set)
  have u: "animal_update_state w self day_time =
             (case call_try_merge_groups w4 self of
                Inl e \<Rightarrow> Some (Inl e)
              | Inr w5 \<Rightarrow>
                  (case move w5 self of
                     None \<Rightarrow> None
                   | Some (Inl e) \<Rightarrow> Some (Inl e)
                   | Some (Inr (moved, w6)) \<Rightarrow>
                       (case call_eat w6 self day_time of
                          Inl e \<Rightarrow> Some (Inl e)
                        | Inr w7 \<Rightarrow> Some (Inr (try_reproduce w7 self)))))"
    using a unfolding w4 by (simp add: animal_update_state_def Let_def)
  have r: "call_eat w6 self day_time = Inl TypeError"
    if "call_try_merge_groups w4 self = Inr w5" "move w5 self = Some (Inr (moved, w6))"
    for w5 moved w6
  proof -
    from try_merge_groups_eat_rebound [OF that(1), of self] move_eat_rebound [OF that(2), of self] e
    have "eat_rebound (objs w6 self)" by simp
    then show ?thesis by (simp add: call_eat_def)
  qed
  show "animal_update_state w self day_time \<noteq> Some (Inr w')"
    unfolding u using r by (auto split: sum.splits option.splits)
  show "call_try_merge_groups w4 self = Inr w5 \<Longrightarrow> move w5 self = Some (Inr (moved, w6)) \<Longrightarrow>
           animal_update_state w self day_time = Some (Inl TypeError)"
    unfolding u using r by simp
qed

text \<open>
  Claim C8.  The first half of the claim holds: for a \<open>Pauvre\<close> with food below 10
  in a phase in which it is active, the status updates and the check at the
  start of \<open>update_state\<close> set \<open>_is_aggressive\<close> and rebind \<open>eat\<close>, and a second check
  changes nothing.  The second half says that the animal goes on eating by the
  mutated rule on later ticks, hungry or not.  It cannot: the rebound \<open>eat\<close> is
  \<open>aggressive_eat.__get__(self)\<close> for a function of \<open>world\<close> and \<open>day_time\<close> only, so the
  call \<open>self.eat(world, day_time)\<close> raises \<open>TypeError\<close>, whatever the hunger of the
  animal.  The update in which the animal mutates raises as soon as the merge
  and the move before the call return, and no update of a \<open>Pauvre\<close> with a rebound
  \<open>eat\<close>, in any phase but the night, returns a world.
\<close>

theorem mutated_eat_raises:
  assumes c: "cls (objs w self) = Pauvre" and f: "food (objs w self) < 10"
    and n: "\<not> has_is_aggressive (objs w self)" and t: "day_time \<noteq> Night"
    and w4: "w4 = check_self_modification (change_speed_status (change_hungry_status
                     (change_active_status w self day_time) self) self) self"
  shows "has_is_aggressive (objs w4 self) \<and> eat_rebound (objs w4 self) \<and>
         is_active (objs w4 self) \<and>
         check_self_modification w4 self = w4 \<and>
         (\<forall>w0 t'. eat_rebound (objs w0 self) \<longrightarrow> call_eat w0 self t' = Inl TypeError) \<and>
         (\<forall>w5 moved w6. call_try_merge_groups w4 self = Inr w5 \<and>
              move w5 self = Some (Inr (moved, w6)) \<longrightarrow>
            animal_update_state w self day_time = Some (Inl TypeError)) \<and>
         (\<forall>w'. animal_update_state w self day_time \<noteq> Some (Inr w')) \<and>
         (\<forall>w0 t' w'. cls (objs w0 self) = Pauvre \<and> eat_rebound (objs w0 self) \<and> t' \<noteq> Night \<longrightarrow>
            animal_update_state w0 self t' \<noteq> Some (Inr w'))"
proof -
  let ?w3 = "change_speed_status (change_hungry_status
               (change_active_status w self day_time) self) self"
  have h3: "is_hungry (objs ?w3 self)" using f by (simp add: status_updates_set)
  have f3: "food (objs ?w3 self) < 10" using f by (simp add: status_updates_keep)
  have n3: "\<not> has_is_aggressive (objs ?w3 self)" using n by (simp add: status_updates_keep)
  have c3: "cls (objs ?w3 self) = Pauvre" using c by (simp add: status_updates_keep)
  have w4': "w4 = upd_obj ?w3 self (\<lambda>ob. ob\<lparr>has_is_aggressive := True, eat_rebound := True\<rparr>)"
    unfolding w4 using h3 f3 n3 c3
    by (simp add: check_self_modification_def check_self_modification_pauvre_def)
  have p1: "has_is_aggressive (objs w4 self)" and p2: "eat_rebound (objs w4 self)"
    unfolding w4' by simp_all
  have p3: "is_active (objs w4 self)"
    unfolding w4 using c t by (simp add: check_keeps_status status_updates_set)
  have c4: "cls (objs w4 self) = Pauvre" unfolding w4' using c3 by simp
  have p4: "check_self_modification w4 self = w4"
    using c4 p1 by (simp add: check_self_modification_def check_self_modification_pauvre_def)
  have p5: "\<forall>w0 t'. eat_rebound (objs w0 self) \<longrightarrow> call_eat w0 self t' = Inl TypeError"
    by (simp add: call_eat_def)
  have p6: "\<forall>w5 moved w6. call_try_merge_groups w4 self = Inr w5 \<and>
              move w5 self = Some (Inr (moved, w6)) \<longrightarrow>
            animal_update_state w self day_time = Some (Inl TypeError)"
    using rebound_update_raises(2) [OF c t w4 p2] by blast
  have p7: "\<forall>w'. animal_update_state w self day_time \<noteq> Some (Inr w')"
    using rebound_update_raises(1) [OF c t w4 p2] by blast
  have p8: "\<forall>w0 t' w'. cls (objs w0 self) = Pauvre \<and> eat_rebound (objs w0 self) \<and> t' \<noteq> Night \<longrightarrow>
            animal_update_state w0 self t' \<noteq> Some (Inr w')"
  proof (intro allI impI)
    fix w0 :: world and t' w'
    assume h: "cls (objs w0 self) = Pauvre \<and> eat_rebound (objs w0 self) \<and> t' \<noteq> Night"
    then have h1: "cls (objs w0 self) = Pauvre" and h2: "eat_rebound (objs w0 self)"
      and h3: "t' \<noteq> Night" by blast+
    from h2 have e: "eat_rebound (objs (check_self_modification (change_speed_status
              (change_hungry_status (change_active_status w0 self t') self) self) self) self)"
      by (simp add: check_keeps_status status_updates_keep)
    from rebound_update_raises(1) [OF h1 h3 refl e]
    show "animal_update_state w0 self t' \<noteq> Some (Inr w')" .
  qed
  from p1 p2 p3 p4 p5 p6 p7 p8 show ?thesis by blast
qed

theorem mutated_eat_raises_witness:
  "cls (objs hungry_world 0) = Pauvre \<and> food (objs hungry_world 0) < 10 \<and>
   \<not> has_is_aggressive (objs hungry_world 0) \<and> Morning \<noteq> Night \<and>
   get_time hungry_world = Morning \<and>
   animal_update_state hungry_world 0 Morning = Some (Inl TypeError) \<and>
   process_tick hungry_world = Some (Inl TypeError)"
proof -
  let ?w4 = "check_self_modification (change_speed_status (change_hungry_status
               (change_active_status hungry_world 0 Morning) 0) 0) 0"
  have c: "cls (objs hungry_world 0) = Pauvre" by (simp add: hungry_world_def blank_def)
  have f: "food (objs hungry_world 0) < 10" by (simp add: hungry_world_def blank_def)
  have n: "\<not> has_is_aggressive (objs hungry_world 0)" by (simp add: hungry_world_def blank_def)
  have t: "Morning \<noteq> Night" by simp
  have g: "get_time hungry_world = Morning"
    by (simp add: get_time_def hungry_world_def World_init_def cycle_def)
  have en: "entities hungry_world = [0]" by (simp add: hungry_world_def)
  have w4: "?w4 = hungry_world\<lparr>objs := (objs hungry_world)
               (0 := (objs hungry_world 0)\<lparr>has_is_aggressive := True, eat_rebound := True\<rparr>)\<rparr>"
    by (simp add: hungry_world_def blank_def World_init_def check_self_modification_def
        check_self_modification_pauvre_def change_speed_status_def change_hungry_status_def
        change_active_status_def active_times_def upd_obj_def Let_def)
  have mg: "call_try_merge_groups ?w4 0 = Inr ?w4"
    unfolding w4
    by (simp add: call_try_merge_groups_def try_merge_groups_def get_nearby_objects_def offsets_2
        hungry_world_def blank_def World_init_def mat_get_def py_index_def)
  have dd: "draw_direction (snd (randint 1 100 ?w4)) =
              Some (- 1, - 1, ?w4\<lparr>rnd_pos := 3\<rparr>)"
    unfolding w4
    by (subst draw_direction_hit)
       (simp_all add: randint_def hungry_world_def World_init_def)
  have mv: "move ?w4 0 = Some (Inr (False, ?w4\<lparr>rnd_pos := 3\<rparr>))"
    unfolding move_def dd unfolding w4
    by (simp add: randint_def move_to_def is_valid_position_def hungry_world_def blank_def
        World_init_def Let_def)
  from mutated_eat_raises [OF c f n t refl] mg mv
  have u: "animal_update_state hungry_world 0 Morning = Some (Inl TypeError)" by blast
  have "process_tick hungry_world = Some (Inl TypeError)"
    unfolding process_tick_def g en
    using u c by (simp add: update_state_def is_animal_def)
  with c f n t g u show ?thesis by blast
qed

section \<open>The scan of the eat step\<close>







section \<open>A tick on a small world\<close>

text \<open>
  The tick on \<open>small_world\<close>, in the first phase of the day, one update after the
  other.  The \<open>Malheureux\<close> stays where it is (its step leads off the grid), fails
  its draw for the first \<open>Pauvre\<close> and eats the second one, entity 2.  The first
  \<open>Pauvre\<close> then steps onto the cell (0, 2) that entity 2 occupied.  Then the loop
  reaches entity 2, which is still in the copy of the live list: it steps from
  (0, 2), its recorded position, to (0, 3), and \<open>move_entity\<close> empties the cell it
  leaves.
\<close>

lemma replicate_numeral: "replicate (numeral k) x = x # replicate (pred_numeral k) x"
  by (simp add: numeral_eq_Suc)

lemma initial_spawn_numeral:
  "initial_spawn c (numeral k) w =
     (case spawn_one c w of None \<Rightarrow> None | Some (Inl e) \<Rightarrow> Some (Inl e)
      | Some (Inr w1) \<Rightarrow> initial_spawn c (pred_numeral k) w1)"
  by (simp add: numeral_eq_Suc)

lemma spawn_one_free:
  "0 \<le> height w - 1 \<Longrightarrow> 0 \<le> width w - 1 \<Longrightarrow>
   mat_get (matrix w) (fst (randint 0 (height w - 1) w))
      (fst (randint 0 (width w - 1) (snd (randint 0 (height w - 1) w)))) = Inr None \<Longrightarrow>
   spawn_one c w =
     (let x = fst (randint 0 (height w - 1) w); w1 = snd (randint 0 (height w - 1) w);
          y = fst (randint 0 (width w - 1) w1); w2 = snd (randint 0 (width w - 1) w1)
      in case mat_set (matrix w2) x y (Some (fst (new_entity c (x, y) w2))) of
           Inl e \<Rightarrow> Some (Inl e)
         | Inr m \<Rightarrow>
             Some (Inr ((snd (new_entity c (x, y) w2))
                         \<lparr>matrix := m, entities := entities w2 @ [fst (new_entity c (x, y) w2)]\<rparr>)))"
  by (subst spawn_one.simps) (simp add: Let_def randint_def)

lemma small_world_spawned:
  "(case initial_spawn Malheureux 1 (World_init 4 1 40 small_draws) of
      Some (Inr w1) \<Rightarrow> initial_spawn Pauvre 2 w1
    | r \<Rightarrow> r) = Some (Inr small_world)"
  by (simp add: spawn_one_free initial_spawn_numeral replicate_numeral small_world_def
      small_draws_def draws_of_def World_init_def blank_def new_entity_def new_animal_def
      is_animal_def randint_def mat_get_def mat_set_def py_index_def Let_def cycle_def)
     (auto simp: fun_eq_iff)

lemmas tick_defs =
  py_index_def mat_get_def mat_set_def random_random_def randint_def
  is_valid_position_def delete_unit_def
  move_entity_def relocate_unit_def get_nearby_objects_def offsets_2
  is_animal_def upd_obj_def decrease_food_def
  change_hungry_status_def change_speed_status_def active_times_def change_active_status_def
  check_self_modification_malheureux_def check_self_modification_pauvre_def
  check_self_modification_def
  try_merge_groups_def call_try_merge_groups_def move_to_def move_def
  malheureux_food_values_def eat_behavior_def lookup_behavior_def
  food_value_def eat_chance_def eat_def call_eat_def
  reproduction_probability_def reproduce_def try_reproduce_def animal_update_state_def
  update_state_def draw_direction_hit small_draws_def draws_of_def Let_def

lemma first_update:
  "(case update_state small_world 0 Morning of
      Some (Inr w) \<Rightarrow>
        width w = 4 \<and> height w = 1 \<and> matrix w = [[Some 0, Some 1, None, None]] \<and>
        entities w = [0, 1] \<and>
        objs w 0 = (objs small_world 0)\<lparr>food := 160\<rparr> \<and>
        objs w 1 = objs small_world 1 \<and> objs w 2 = objs small_world 2 \<and>
        grps w = grps small_world \<and> rnd w = small_draws \<and> rnd_pos w = 12 \<and>
        current_time w = Morning \<and> tick_counter w = 0
    | _ \<Rightarrow> False)"
  by (simp add: tick_defs small_world_def World_init_def blank_def cycle_def)

lemma second_update:
  assumes "width w = 4" "height w = 1" "matrix w = [[Some 0, Some 1, None, None]]"
    "entities w = [0, 1]" "objs w 0 = (objs small_world 0)\<lparr>food := 160\<rparr>"
    "objs w 1 = objs small_world 1" "objs w 2 = objs small_world 2"
    "grps w = grps small_world" "rnd w = small_draws" "rnd_pos w = 12"
    "current_time w = Morning" "tick_counter w = 0"
  shows "(case update_state w 1 Morning of
      Some (Inr w') \<Rightarrow>
        width w' = 4 \<and> height w' = 1 \<and> matrix w' = [[Some 0, None, Some 1, None]] \<and>
        entities w' = [0, 1] \<and>
        objs w' 0 = (objs small_world 0)\<lparr>food := 160\<rparr> \<and>
        objs w' 1 = (objs small_world 1)\<lparr>position := (0, 2), speed := 100, food := 99\<rparr> \<and>
        objs w' 2 = objs small_world 2 \<and>
        grps w' = grps small_world \<and> rnd w' = small_draws \<and> rnd_pos w' = 16 \<and>
        current_time w' = Morning \<and> tick_counter w' = 0
    | _ \<Rightarrow> False)"
  using assms by (simp add: tick_defs small_world_def World_init_def blank_def cycle_def)

lemma third_update:
  assumes "width w = 4" "height w = 1" "matrix w = [[Some 0, None, Some 1, None]]"
    "entities w = [0, 1]" "objs w 0 = (objs small_world 0)\<lparr>food := 160\<rparr>"
    "objs w 1 = (objs small_world 1)\<lparr>position := (0, 2), speed := 100, food := 99\<rparr>"
    "objs w 2 = objs small_world 2"
    "grps w = grps small_world" "rnd w = small_draws" "rnd_pos w = 16"
    "current_time w = Morning" "tick_counter w = 0"
  shows "(case update_state w 2 Morning of
      Some (Inr w') \<Rightarrow>
        width w' = 4 \<and> height w' = 1 \<and> matrix w' = [[Some 0, None, None, Some 2]] \<and>
        entities w' = [0, 1] \<and>
        objs w' 0 = (objs small_world 0)\<lparr>food := 160\<rparr> \<and>
        objs w' 1 = (objs small_world 1)\<lparr>position := (0, 2), speed := 100, food := 99\<rparr> \<and>
        objs w' 2 = (objs small_world 2)\<lparr>position := (0, 3), speed := 100, food := 99\<rparr> \<and>
        grps w' = grps small_world \<and> rnd w' = small_draws \<and> rnd_pos w' = 20 \<and>
        current_time w' = Morning \<and> tick_counter w' = 0
    | _ \<Rightarrow> False)"
  using assms by (simp add: tick_defs small_world_def World_init_def blank_def cycle_def)

lemma small_tick:
  "\<exists>wa wb wc.
     update_state small_world 0 Morning = Some (Inr wa) \<and>
     entities wa = [0, 1] \<and> matrix wa = [[Some 0, Some 1, None, None]] \<and>
     objs wa 2 = objs small_world 2 \<and>
     update_state wa 1 Morning = Some (Inr wb) \<and>
     update_state wb 2 Morning = Some (Inr wc) \<and>
     process_tick small_world = Some (Inr (change_time wc)) \<and>
     width wc = 4 \<and> height wc = 1 \<and> matrix wc = [[Some 0, None, None, Some 2]] \<and>
     entities wc = [0, 1] \<and>
     objs wc 0 = (objs small_world 0)\<lparr>food := 160\<rparr> \<and>
     objs wc 1 = (objs small_world 1)\<lparr>position := (0, 2), speed := 100, food := 99\<rparr> \<and>
     objs wc 2 = (objs small_world 2)\<lparr>position := (0, 3), speed := 100, food := 99\<rparr> \<and>
     tick_counter wc = 0"
proof -
  obtain wa where a: "update_state small_world 0 Morning = Some (Inr wa)"
    using first_update by (cases "update_state small_world 0 Morning") (auto split: sum.splits)
  from first_update a
  have a1: "width wa = 4" and a2: "height wa = 1"
    and a3: "matrix wa = [[Some 0, Some 1, None, None]]" and a4: "entities wa = [0, 1]"
    and a5: "objs wa 0 = (objs small_world 0)\<lparr>food := 160\<rparr>"
    and a6: "objs wa 1 = objs small_world 1" and a7: "objs wa 2 = objs small_world 2"
    and a8: "grps wa = grps small_world" and a9: "rnd wa = small_draws"
    and a10: "rnd_pos wa = 12" and a11: "current_time wa = Morning"
    and a12: "tick_counter wa = 0"
    by simp_all
  note sb = second_update [OF a1 a2 a3 a4 a5 a6 a7 a8 a9 a10 a11 a12]
  obtain wb where b: "update_state wa 1 Morning = Some (Inr wb)"
    using sb by (cases "update_state wa 1 Morning") (auto split: sum.splits)
  from sb b
  have b1: "width wb = 4" and b2: "height wb = 1"
    and b3: "matrix wb = [[Some 0, None, Some 1, None]]" and b4: "entities wb = [0, 1]"
    and b5: "objs wb 0 = (objs small_world 0)\<lparr>food := 160\<rparr>"
    and b6: "objs wb 1 = (objs small_world 1)\<lparr>position := (0, 2), speed := 100, food := 99\<rparr>"
    and b7: "objs wb 2 = objs small_world 2"
    and b8: "grps wb = grps small_world" and b9: "rnd wb = small_draws"
    and b10: "rnd_pos wb = 16" and b11: "current_time wb = Morning"
    and b12: "tick_counter wb = 0"
    by simp_all
  note sc = third_update [OF b1 b2 b3 b4 b5 b6 b7 b8 b9 b10 b11 b12]
  obtain wc where c: "update_state wb 2 Morning = Some (Inr wc)"
    using sc by (cases "update_state wb 2 Morning") (auto split: sum.splits)
  from sc c
  have c1: "width wc = 4" and c2: "height wc = 1"
    and c3: "matrix wc = [[Some 0, None, None, Some 2]]" and c4: "entities wc = [0, 1]"
    and c5: "objs wc 0 = (objs small_world 0)\<lparr>food := 160\<rparr>"
    and c6: "objs wc 1 = (objs small_world 1)\<lparr>position := (0, 2), speed := 100, food := 99\<rparr>"
    and c7: "objs wc 2 = (objs small_world 2)\<lparr>position := (0, 3), speed := 100, food := 99\<rparr>"
    and c12: "tick_counter wc = 0"
    by simp_all
  have en: "entities small_world = [0, 1, 2]" by (simp add: small_world_def)
  have gt: "get_time small_world = Morning"
    by (simp add: get_time_def small_world_def World_init_def cycle_def)
  have u: "update_all [0, 1, 2] Morning small_world = Some (Inr wc)"
    using a b c by simp
  have p: "process_tick small_world = Some (Inr (change_time wc))"
    unfolding process_tick_def en gt u by simp
  from a a4 a3 a7 b c p c1 c2 c3 c4 c5 c6 c7 c12 show ?thesis by blast
qed

lemma small_world_reachable: "reachable small_world"
proof -
  let ?w0 = "World_init 4 1 40 small_draws"
  obtain w1 where s1: "initial_spawn Malheureux 1 ?w0 = Some (Inr w1)"
    and s2: "initial_spawn Pauvre 2 w1 = Some (Inr small_world)"
    using small_world_spawned
    by (cases "initial_spawn Malheureux 1 ?w0") (auto split: sum.splits)
  from reach_spawn [OF reach_spawn [OF reach_init s1] s2] show ?thesis .
qed

text \<open>
  Claim C1 says that \<open>process_tick\<close> skips an entity of its snapshot that was
  removed earlier in the same tick.  The loop has no such test: it calls
  \<open>update_state\<close> for every entity of \<open>list(self.entities)\<close>.  In \<open>small_world\<close> the
  update of entity 0 removes entity 2 from the live list and from the grid, and
  the tick still updates entity 2: afterwards its speed is 100 instead of 50, its
  food 99 instead of 100, its position (0, 3) instead of (0, 2), and it is back
  on the grid without being live.  The rest of the claim holds in this run: the
  loop follows the list as it was before the first update, and the phase
  advances once.
\<close>

theorem process_tick_updates_removed:
  "get_time small_world = Morning \<and> entities small_world = [0, 1, 2] \<and>
   position (objs small_world 2) = (0, 2) \<and> speed (objs small_world 2) = 50 \<and>
   food (objs small_world 2) = 100 \<and>
   (\<exists>wa w'. update_state small_world 0 Morning = Some (Inr wa) \<and> entities wa = [0, 1] \<and>
       matrix wa = [[Some 0, Some 1, None, None]] \<and> objs wa 2 = objs small_world 2 \<and>
       process_tick small_world = Some (Inr w') \<and>
       entities w' = [0, 1] \<and> matrix w' = [[Some 0, None, None, Some 2]] \<and>
       position (objs w' 2) = (0, 3) \<and> speed (objs w' 2) = 100 \<and> food (objs w' 2) = 99 \<and>
       tick_counter w' = 1 \<and> current_time w' = Day)"
proof -
  have g: "get_time small_world = Morning"
    by (simp add: get_time_def small_world_def World_init_def cycle_def)
  have i: "entities small_world = [0, 1, 2]" "position (objs small_world 2) = (0, 2)"
    "speed (objs small_world 2) = 50" "food (objs small_world 2) = 100"
    by (simp_all add: small_world_def blank_def)
  from small_tick obtain wa wc where
    a: "update_state small_world 0 Morning = Some (Inr wa)" "entities wa = [0, 1]"
      "matrix wa = [[Some 0, Some 1, None, None]]" "objs wa 2 = objs small_world 2"
    and p: "process_tick small_world = Some (Inr (change_time wc))"
    and c: "matrix wc = [[Some 0, None, None, Some 2]]" "entities wc = [0, 1]"
      "objs wc 2 = (objs small_world 2)\<lparr>position := (0, 3), speed := 100, food := 99\<rparr>"
      "tick_counter wc = 0"
    by blast
  from c have r: "entities (change_time wc) = [0, 1]"
    "matrix (change_time wc) = [[Some 0, None, None, Some 2]]"
    "position (objs (change_time wc) 2) = (0, 3)" "speed (objs (change_time wc) 2) = 100"
    "food (objs (change_time wc) 2) = 99" "tick_counter (change_time wc) = 1"
    "current_time (change_time wc) = Day"
    by (simp_all add: change_time_def cycle_def)
  from g i a p r show ?thesis by blast
qed

text \<open>
  Claim C10 says that in every reachable state the cell at the position of every
  live entity holds that entity.  \<open>small_world\<close> is reachable and consistent; the
  state after one tick is reachable and is not consistent: entity 1 is live, its
  position is (0, 2), and the cell (0, 2) is empty, because the update of the
  removed entity 2 emptied it.
\<close>

theorem grid_invariant_broken:
  "reachable small_world \<and> grid_consistent small_world \<and>
   (\<exists>w'. process_tick small_world = Some (Inr w') \<and> reachable w' \<and>
      entities w' = [0, 1] \<and> position (objs w' 1) = (0, 2) \<and>
      mat_get (matrix w') 0 2 = Inr None \<and> \<not> grid_consistent w')"
proof -
  have g: "grid_consistent small_world"
    by (simp add: grid_consistent_def small_world_def blank_def mat_get_def py_index_def)
  from small_tick obtain wc where
    p: "process_tick small_world = Some (Inr (change_time wc))"
    and c: "matrix wc = [[Some 0, None, None, Some 2]]" "entities wc = [0, 1]"
      "objs wc 0 = (objs small_world 0)\<lparr>food := 160\<rparr>"
      "objs wc 1 = (objs small_world 1)\<lparr>position := (0, 2), speed := 100, food := 99\<rparr>"
    by blast
  let ?w = "change_time wc"
  from c have r: "entities ?w = [0, 1]" "position (objs ?w 1) = (0, 2)"
    "mat_get (matrix ?w) 0 2 = Inr None"
    by (simp_all add: change_time_def mat_get_def py_index_def)
  from c have n: "\<not> grid_consistent ?w"
    by (simp add: grid_consistent_def change_time_def mat_get_def py_index_def)
  from reach_tick [OF small_world_reachable p] have "reachable ?w" .
  with small_world_reachable g p r n show ?thesis by blast
qed

end
